theory Spec2Isabelle
  imports Complex_Main "HOL-Library.AList"
begin

section \<open>JavaScript values as they occur in server.js\<close>

text \<open>
  Request bodies are parsed by \<^verbatim>\<open>express.json()\<close>, so every value that enters the
  program is a JSON value; a property that is absent reads as \<^verbatim>\<open>undefined\<close>.
  A number is carried as the rational value of the double it parses to (JSON has no NaN,
  and \<^verbatim>\<open>-0\<close> is \<^verbatim>\<open>0\<close>). An object is the list of its own properties in
  insertion order, each name once; the position JavaScript gives to integer-like names
  is not modelled, and nothing below depends on the order of properties.
\<close>

datatype jsval =
    JUndefined
  | JNull
  | JBool bool
  | JNum rat
  | JStr string
  | JArr "jsval list"
  | JObj "(string \<times> jsval) list"

type_synonym obj = "(string \<times> jsval) list"

text \<open>\<^verbatim>\<open>o.k\<close>: an absent property reads as \<^verbatim>\<open>undefined\<close>.\<close>

definition obj_get :: "obj \<Rightarrow> string \<Rightarrow> jsval" where
  "obj_get ob k = (case map_of ob k of None \<Rightarrow> JUndefined | Some v \<Rightarrow> v)"

text \<open>
  \<^verbatim>\<open>{ ...o, k: v }\<close> and \<^verbatim>\<open>o.k = v\<close>: an existing property keeps its place, a new
  one is added at the end.
\<close>

definition obj_set :: "string \<Rightarrow> jsval \<Rightarrow> obj \<Rightarrow> obj" where
  "obj_set k v ob = AList.update k v ob"

text \<open>\<^verbatim>\<open>const { k, ...rest } = o\<close>: the rest object has every own property but \<^verbatim>\<open>k\<close>.\<close>

definition obj_rest :: "string \<Rightarrow> obj \<Rightarrow> obj" where
  "obj_rest k ob = AList.delete k ob"

text \<open>\<^verbatim>\<open>!v\<close> is \<open>\<not> truthy v\<close>.\<close>

fun truthy :: "jsval \<Rightarrow> bool" where
  "truthy JUndefined = False"
| "truthy JNull = False"
| "truthy (JBool b) = b"
| "truthy (JNum n) = (n \<noteq> 0)"
| "truthy (JStr s) = (s \<noteq> [])"
| "truthy (JArr xs) = True"
| "truthy (JObj ps) = True"

text \<open>
  \<^verbatim>\<open>a === b\<close>. Primitives compare by type and value. Arrays and objects compare by
  reference; in every comparison of server.js one side is a string or a value of the
  request being handled, which \<^verbatim>\<open>express.json()\<close> has just allocated, so two
  references are never the same object.
\<close>

fun strict_eq :: "jsval \<Rightarrow> jsval \<Rightarrow> bool" where
  "strict_eq JUndefined b = (b = JUndefined)"
| "strict_eq JNull b = (b = JNull)"
| "strict_eq (JBool x) b = (b = JBool x)"
| "strict_eq (JNum x) b = (b = JNum x)"
| "strict_eq (JStr x) b = (b = JStr x)"
| "strict_eq (JArr xs) b = False"
| "strict_eq (JObj ps) b = False"

datatype error = TypeError

text \<open>
  \<^verbatim>\<open>contact.includes('@')\<close> behind the guard \<^verbatim>\<open>!contact\<close>: a string searches for the
  substring, an array for an element, and any other truthy JSON value has no callable
  \<^verbatim>\<open>includes\<close>, so the call throws.
\<close>

fun includes_at :: "jsval \<Rightarrow> error + bool" where
  "includes_at (JStr s) = Inr (CHR ''@'' \<in> set s)"
| "includes_at (JArr xs) = Inr (JStr ''@'' \<in> set xs)"
| "includes_at v = Inl TypeError"

subsection \<open>Numbers and dates as text\<close>

definition digit_char :: "nat \<Rightarrow> char" where
  "digit_char d = ''0123456789'' ! d"

text \<open>The decimal numeral of \<^verbatim>\<open>`${n}`\<close> for a non-negative integer.\<close>

fun string_of_nat :: "nat \<Rightarrow> string" where
  "string_of_nat n =
     (if n < 10 then [digit_char n] else string_of_nat (n div 10) @ [digit_char (n mod 10)])"

declare string_of_nat.simps [simp del]

definition pad :: "nat \<Rightarrow> nat \<Rightarrow> string" where
  "pad w n = replicate (w - length (string_of_nat n)) (CHR ''0'') @ string_of_nat n"

text \<open>Days since 1970-01-01 to (year, month, day) of the proleptic Gregorian calendar.\<close>

definition civil_from_days :: "nat \<Rightarrow> nat \<times> nat \<times> nat" where
  "civil_from_days days =
     (let z = days + 719468;
          era = z div 146097;
          doe = z mod 146097;
          yoe = (doe - doe div 1460 + doe div 36524 - doe div 146096) div 365;
          doy = doe - (365 * yoe + yoe div 4 - yoe div 100);
          mp = (5 * doy + 2) div 153;
          d = doy - (153 * mp + 2) div 5 + 1;
          m = (if mp < 10 then mp + 3 else mp - 9);
          y = yoe + era * 400 + (if m \<le> 2 then 1 else 0)
      in (y, m, d))"

text \<open>
  \<^verbatim>\<open>new Date().toISOString()\<close> for a clock reading of \<open>ms\<close> milliseconds since the
  epoch: \<^verbatim>\<open>YYYY-MM-DDTHH:mm:ss.sssZ\<close>, the year with a sign and six digits past 9999.
\<close>

definition toISOString :: "nat \<Rightarrow> string" where
  "toISOString ms =
     (let (y, m, d) = civil_from_days (ms div 86400000);
          r = ms mod 86400000
      in (if y \<le> 9999 then pad 4 y else CHR ''+'' # pad 6 y) @ ''-'' @ pad 2 m @ ''-'' @ pad 2 d
         @ ''T'' @ pad 2 (r div 3600000) @ '':'' @ pad 2 (r mod 3600000 div 60000)
         @ '':'' @ pad 2 (r mod 60000 div 1000) @ ''.'' @ pad 3 (r mod 1000) @ ''Z'')"

section \<open>The in-memory database\<close>

record db =
  users :: "obj list"
  orders :: "obj list"
  supportTickets :: "obj list"

definition init_db :: db where
  "init_db =
     \<lparr> users = [[(''id'', JStr ''U-1670000000000''),
                 (''name'', JStr ''Admin''),
                 (''email'', JStr ''admin@breakway.com''),
                 (''password'', JStr ''admin''),
                 (''isAdmin'', JBool True)]],
       orders = [],
       supportTickets = [] \<rparr>"

section \<open>Requests, responses, middleware\<close>

text \<open>
  What the handlers read of a request: the \<^verbatim>\<open>x-user-id\<close> header (absent is
  \<open>None\<close>), the parsed body, the \<^verbatim>\<open>:orderId\<close> path parameter, and \<^verbatim>\<open>req.user\<close>,
  which only \<^verbatim>\<open>authMiddleware\<close> sets. A request without a JSON body has the empty
  object as body. An array body has no named properties read here and spreads to its
  index properties, so it is the object of those.
\<close>

record request =
  x_user_id :: "string option"
  body :: obj
  orderId :: string
  user :: "obj option"

text \<open>A response is the status code and the JSON body handed to \<^verbatim>\<open>res.json\<close>.\<close>

type_synonym response = "nat \<times> jsval"

definition message :: "string \<Rightarrow> jsval" where
  "message m = JObj [(''message'', JStr m)]"

text \<open>\<^verbatim>\<open>xs.findIndex(p)\<close>; \<open>None\<close> is the result \<^verbatim>\<open>-1\<close>.\<close>

fun findIndex :: "('a \<Rightarrow> bool) \<Rightarrow> 'a list \<Rightarrow> nat option" where
  "findIndex p [] = None"
| "findIndex p (x # xs) = (if p x then Some 0 else map_option Suc (findIndex p xs))"

text \<open>A middleware either ends the request with a response or calls \<^verbatim>\<open>next()\<close>.\<close>

type_synonym middleware = "db \<Rightarrow> request \<Rightarrow> response + request"

definition authMiddleware :: middleware where
  "authMiddleware d req =
     (case x_user_id req of
        None \<Rightarrow> Inl (401, message ''Unauthorized: User ID is required.'')
      | Some userId \<Rightarrow>
          if userId = [] then Inl (401, message ''Unauthorized: User ID is required.'')
          else (case find (\<lambda>u. strict_eq (obj_get u ''id'') (JStr userId)) (users d) of
                  None \<Rightarrow> Inl (401, message ''Unauthorized: User not found.'')
                | Some u \<Rightarrow> Inr (req\<lparr>user := Some u\<rparr>)))"

definition adminMiddleware :: middleware where
  "adminMiddleware d req =
     (case user req of
        None \<Rightarrow> Inl (403, message ''Forbidden: Admin access required.'')
      | Some u \<Rightarrow>
          if \<not> truthy (obj_get u ''isAdmin'')
          then Inl (403, message ''Forbidden: Admin access required.'')
          else Inr req)"

text \<open>
  A handler returns its response and the database it leaves, or throws. A route
  \<^verbatim>\<open>app.METHOD(path, m1, ..., mk, handler)\<close> runs the middlewares in the order given.
\<close>

type_synonym handler = "db \<Rightarrow> request \<Rightarrow> error + (response \<times> db)"

fun route :: "middleware list \<Rightarrow> handler \<Rightarrow> handler" where
  "route [] h d req = h d req"
| "route (m # ms) h d req =
     (case m d req of Inl r \<Rightarrow> Inr (r, d) | Inr req' \<Rightarrow> route ms h d req')"

section \<open>Route handlers\<close>

text \<open>
  Each handler that reads the clock takes the readings as arguments, in the order the
  source evaluates them: \<^verbatim>\<open>Date.now()\<close> and \<^verbatim>\<open>new Date()\<close> are milliseconds
  since the epoch.
\<close>

definition register :: "nat \<Rightarrow> handler" where
  "register now d req =
     (let name = obj_get (body req) ''name'';
          contact = obj_get (body req) ''contact'';
          password = obj_get (body req) ''password''
      in if \<not> truthy name \<or> \<not> truthy contact \<or> \<not> truthy password
         then Inr ((400, message ''Please fill all fields.''), d)
         else (case includes_at contact of
                 Inl e \<Rightarrow> Inl e
               | Inr isEmail \<Rightarrow>
                   if list_ex (\<lambda>u. strict_eq (if isEmail then obj_get u ''email''
                                               else obj_get u ''mobile'') contact) (users d)
                   then Inr ((409, message ''An account with this mobile/email already exists.''), d)
                   else (let newUser =
                               [(''id'', JStr (''U-'' @ string_of_nat now)),
                                (''name'', name),
                                (''password'', password),
                                (''email'', if isEmail then contact else JNull),
                                (''mobile'', if \<not> isEmail then contact else JNull),
                                (''address'', JStr ''''),
                                (''profilePic'', JStr ''''),
                                (''isAdmin'', JBool False)]
                         in Inr ((201, JObj [(''message'', JStr ''Account created successfully!''),
                                             (''user'', JObj [(''id'', obj_get newUser ''id''),
                                                              (''name'', obj_get newUser ''name'')])]),
                                 d\<lparr>users := users d @ [newUser]\<rparr>))))"

definition login :: handler where
  "login d req =
     (let contact = obj_get (body req) ''contact'';
          password = obj_get (body req) ''password''
      in case find (\<lambda>u. (strict_eq (obj_get u ''email'') contact
                            \<or> strict_eq (obj_get u ''mobile'') contact)
                           \<and> strict_eq (obj_get u ''password'') password) (users d) of
           Some u \<Rightarrow>
             Inr ((200, JObj [(''message'', JStr ''Login successful!''),
                              (''user'', JObj [(''id'', obj_get u ''id''),
                                               (''name'', obj_get u ''name''),
                                               (''isAdmin'', JBool (truthy (obj_get u ''isAdmin'')))])]),
                  d)
         | None \<Rightarrow> Inr ((401, message ''Incorrect mobile number/email or password.''), d))"

text \<open>
  The handlers below sit behind \<^verbatim>\<open>authMiddleware\<close>, which has found \<^verbatim>\<open>req.user\<close> by
  comparing its \<^verbatim>\<open>id\<close> to the header string, so \<^verbatim>\<open>req.user.id\<close> is a string there.
  Reading a property of an unset \<^verbatim>\<open>req.user\<close> throws, at the point where the source
  first evaluates it.
\<close>

definition get_profile :: handler where
  "get_profile d req =
     (case user req of
        None \<Rightarrow> Inl TypeError
      | Some ru \<Rightarrow> Inr ((200, JObj (obj_rest ''password'' ru)), d))"

definition update_profile :: handler where
  "update_profile d req =
     (let name = obj_get (body req) ''name'';
          email = obj_get (body req) ''email'';
          address = obj_get (body req) ''address'';
          profilePic = obj_get (body req) ''profilePic''
      in case user req of
           None \<Rightarrow> if users d = [] then Inr ((404, message ''User not found.''), d)
                   else Inl TypeError
         | Some ru \<Rightarrow>
             (case findIndex (\<lambda>u. strict_eq (obj_get u ''id'') (obj_get ru ''id'')) (users d) of
                Some userIndex \<Rightarrow>
                  (let d' = d\<lparr>users := (users d)[userIndex :=
                                 obj_set ''profilePic'' profilePic
                                   (obj_set ''address'' address
                                     (obj_set ''email'' email
                                       (obj_set ''name'' name (users d ! userIndex))))]\<rparr>
                   in Inr ((200, JObj [(''message'', JStr ''Profile updated successfully!''),
                                       (''user'', JObj (users d' ! userIndex))]),
                           d'))
              | None \<Rightarrow> Inr ((404, message ''User not found.''), d)))"

definition create_order :: "nat \<Rightarrow> handler" where
  "create_order now d req =
     (case user req of
        None \<Rightarrow> Inl TypeError
      | Some ru \<Rightarrow>
          (let orderData = obj_set ''status'' (JStr ''placed'')
                             (obj_set ''id'' (JStr (''ORD-'' @ string_of_nat now))
                               (obj_set ''userId'' (obj_get ru ''id'') (body req)))
           in Inr ((201, JObj orderData), d\<lparr>orders := orders d @ [orderData]\<rparr>)))"

definition list_orders :: handler where
  "list_orders d req =
     (case user req of
        None \<Rightarrow> if orders d = [] then Inr ((200, JArr []), d) else Inl TypeError
      | Some ru \<Rightarrow>
          Inr ((200, JArr (map JObj (filter (\<lambda>x. strict_eq (obj_get x ''userId'') (obj_get ru ''id''))
                                            (orders d)))),
               d))"

definition cancel_order :: handler where
  "cancel_order d req =
     (case user req of
        None \<Rightarrow>
          if list_ex (\<lambda>x. strict_eq (obj_get x ''id'') (JStr (orderId req))) (orders d)
          then Inl TypeError
          else Inr ((404, message ''Order not found or you do not have permission to cancel it.''), d)
      | Some ru \<Rightarrow>
          (case findIndex (\<lambda>x. strict_eq (obj_get x ''id'') (JStr (orderId req))
                                \<and> strict_eq (obj_get x ''userId'') (obj_get ru ''id'')) (orders d) of
             Some orderIndex \<Rightarrow>
               if strict_eq (obj_get (orders d ! orderIndex) ''status'') (JStr ''placed'')
               then (let d' = d\<lparr>orders := (orders d)[orderIndex :=
                                     obj_set ''status'' (JStr ''cancelled'') (orders d ! orderIndex)]\<rparr>
                     in Inr ((200, JObj (orders d' ! orderIndex)), d'))
               else Inr ((400, message (''Only orders with '' @ [CHR 0x22] @ ''placed''
                                         @ [CHR 0x22] @ '' status can be cancelled.'')), d)
           | None \<Rightarrow>
               Inr ((404, message ''Order not found or you do not have permission to cancel it.''), d)))"

definition admin_stats :: handler where
  "admin_stats d req =
     Inr ((200, JObj [(''userCount'', JNum (of_nat (length (users d)))),
                      (''orderCount'', JNum (of_nat (length (orders d))))]), d)"

definition admin_users :: handler where
  "admin_users d req = Inr ((200, JArr (map (\<lambda>u. JObj (obj_rest ''password'' u)) (users d))), d)"

definition admin_orders :: handler where
  "admin_orders d req = Inr ((200, JArr (map JObj (orders d))), d)"

definition list_tickets :: handler where
  "list_tickets d req =
     (case user req of
        None \<Rightarrow> if supportTickets d = [] then Inr ((200, JArr []), d) else Inl TypeError
      | Some ru \<Rightarrow>
          Inr ((200, JArr (map JObj (filter (\<lambda>t. strict_eq (obj_get t ''userId'') (obj_get ru ''id''))
                                            (supportTickets d)))),
               d))"

text \<open>
  \<^verbatim>\<open>submit_ticket\<close> reads the clock three times: \<^verbatim>\<open>Date.now()\<close> for the
  identifier, \<^verbatim>\<open>new Date()\<close> for \<^verbatim>\<open>createdAt\<close>, and \<^verbatim>\<open>new Date()\<close> again for the
  thread entry.
\<close>

definition submit_ticket :: "nat \<Rightarrow> nat \<Rightarrow> nat \<Rightarrow> handler" where
  "submit_ticket now created entered d req =
     (let msg = obj_get (body req) ''message''
      in case user req of
           None \<Rightarrow> Inl TypeError
         | Some ru \<Rightarrow>
             (let newTicket =
                    [(''id'', JStr (''T-'' @ string_of_nat now)),
                     (''userId'', obj_get ru ''id''),
                     (''name'', obj_get ru ''name''),
                     (''message'', msg),
                     (''status'', JStr ''open''),
                     (''createdAt'', JStr (toISOString created)),
                     (''thread'', JArr [JObj [(''from'', JStr ''customer''),
                                              (''text'', msg),
                                              (''at'', JStr (toISOString entered))]])]
              in Inr ((201, JObj newTicket), d\<lparr>supportTickets := supportTickets d @ [newTicket]\<rparr>)))"

section \<open>The application\<close>

text \<open>
  The twelve routes of the server, each with the clock readings its handler makes. A
  request arrives with \<^verbatim>\<open>req.user\<close> unset.
\<close>

datatype endpoint =
    PostUsersRegister nat
  | PostUsersLogin
  | GetUsersProfile
  | PutUsersProfile
  | PostOrders nat
  | GetOrders
  | PutOrdersCancel
  | GetAdminStats
  | GetAdminUsers
  | GetAdminOrders
  | GetSupportTickets
  | PostSupportTickets nat nat nat

fun app :: "endpoint \<Rightarrow> handler" where
  "app (PostUsersRegister now) = route [] (register now)"
| "app PostUsersLogin = route [] login"
| "app GetUsersProfile = route [authMiddleware] get_profile"
| "app PutUsersProfile = route [authMiddleware] update_profile"
| "app (PostOrders now) = route [authMiddleware] (create_order now)"
| "app GetOrders = route [authMiddleware] list_orders"
| "app PutOrdersCancel = route [authMiddleware] cancel_order"
| "app GetAdminStats = route [authMiddleware, adminMiddleware] admin_stats"
| "app GetAdminUsers = route [authMiddleware, adminMiddleware] admin_users"
| "app GetAdminOrders = route [authMiddleware, adminMiddleware] admin_orders"
| "app GetSupportTickets = route [authMiddleware] list_tickets"
| "app (PostSupportTickets now created entered) =
     route [authMiddleware] (submit_ticket now created entered)"

definition incoming :: "string option \<Rightarrow> obj \<Rightarrow> string \<Rightarrow> request" where
  "incoming h b oid = \<lparr> x_user_id = h, body = b, orderId = oid, user = None \<rparr>"

text \<open>
  The databases the server can be in: the initial one, and whatever a request leaves
  behind. A handler that throws has not yet written anything.
\<close>

inductive reachable :: "db \<Rightarrow> bool" where
  init: "reachable init_db"
| step: "reachable d \<Longrightarrow> app e d (incoming h b oid) = Inr (r, d') \<Longrightarrow> reachable d'"

text \<open>
  The server handles requests one at a time, each to completion. A request is the
  route it hits with its header, body and path parameter; one whose handler throws is
  answered by the framework's error handler and leaves the database as it was.
\<close>

fun serve :: "db \<Rightarrow> (endpoint \<times> string option \<times> obj \<times> string) list \<Rightarrow> db" where
  "serve d [] = d"
| "serve d ((e, h, b, oid) # rest) =
     (case app e d (incoming h b oid) of
        Inl err \<Rightarrow> serve d rest
      | Inr (r, d') \<Rightarrow> serve d' rest)"

section \<open>Invariants of the reachable databases\<close>

text \<open>Every stored user has a password that is not empty.\<close>

definition users_wf :: "db \<Rightarrow> bool" where
  "users_wf d \<longleftrightarrow> (\<forall>u\<in>set (users d). truthy (obj_get u ''password''))"

text \<open>
  Every order has a string identifier and a string owner, and an order that is no longer
  \<^verbatim>\<open>placed\<close> is the first one in the store with its identifier and owner.
\<close>

definition orders_wf :: "db \<Rightarrow> bool" where
  "orders_wf d \<longleftrightarrow>
     (\<forall>i<length (orders d).
        (\<exists>s. obj_get (orders d ! i) ''id'' = JStr s) \<and>
        (\<exists>s. obj_get (orders d ! i) ''userId'' = JStr s) \<and>
        (obj_get (orders d ! i) ''status'' \<noteq> JStr ''placed'' \<longrightarrow>
           (\<forall>j<i. obj_get (orders d ! j) ''id'' \<noteq> obj_get (orders d ! i) ''id'' \<or>
                  obj_get (orders d ! j) ''userId'' \<noteq> obj_get (orders d ! i) ''userId'')))"

section \<open>Objects, arrays and the middleware\<close>

lemma obj_get_obj_set: "obj_get (obj_set k v ob) k' = (if k' = k then v else obj_get ob k')"
  by (simp add: obj_get_def obj_set_def update_conv')

lemma map_of_obj_set: "map_of (obj_set k v ob) = (map_of ob)(k \<mapsto> v)"
  by (simp add: obj_set_def update_conv')

lemma map_of_obj_rest: "map_of (obj_rest k ob) = (map_of ob)(k := None)"
  by (simp add: obj_rest_def delete_conv')

lemma obj_rest_filter: "obj_rest k ob = filter (\<lambda>kv. fst kv \<noteq> k) ob"
  by (induction ob) (auto simp: obj_rest_def)

lemma strict_eq_JStr [simp]: "strict_eq a (JStr s) \<longleftrightarrow> a = JStr s"
  by (cases a) auto

lemma findIndex_Some:
  "findIndex p xs = Some i \<Longrightarrow> i < length xs \<and> p (xs ! i) \<and> (\<forall>j<i. \<not> p (xs ! j))"
proof (induction xs arbitrary: i)
  case Nil
  then show ?case by simp
next
  case (Cons x xs)
  show ?case
  proof (cases "p x")
    case True
    with Cons.prems show ?thesis by simp
  next
    case False
    with Cons.prems obtain i' where i': "findIndex p xs = Some i'" "i = Suc i'"
      by auto
    from Cons.IH [OF i'(1)] False i'(2) show ?thesis
      by (auto simp: less_Suc_eq_0_disj)
  qed
qed

lemma findIndex_None: "findIndex p xs = None \<longleftrightarrow> (\<forall>x\<in>set xs. \<not> p x)"
  by (induction xs) auto

lemma findIndex_first:
  "i < length xs \<Longrightarrow> p (xs ! i) \<Longrightarrow> (\<forall>j<i. \<not> p (xs ! j)) \<Longrightarrow> findIndex p xs = Some i"
proof (induction xs arbitrary: i)
  case Nil
  then show ?case by simp
next
  case (Cons x xs)
  show ?case
  proof (cases i)
    case 0
    with Cons.prems show ?thesis by simp
  next
    case (Suc i')
    with Cons.prems have "\<not> p x" by auto
    moreover from Suc Cons.prems have "findIndex p xs = Some i'"
      by (intro Cons.IH) auto
    ultimately show ?thesis using Suc by simp
  qed
qed

lemma findIndex_update_same:
  assumes "findIndex p xs = Some i" "p y"
  shows "findIndex p (xs[i := y]) = Some i"
proof (rule findIndex_first)
  from findIndex_Some [OF assms(1)] have il: "i < length xs" and first: "\<forall>j<i. \<not> p (xs ! j)"
    by auto
  from il show "i < length (xs[i := y])" by simp
  from il assms(2) show "p (xs[i := y] ! i)" by simp
  from il first show "\<forall>j<i. \<not> p (xs[i := y] ! j)" by simp
qed

lemma find_findIndex:
  "find p xs = Some x \<Longrightarrow> \<exists>i. findIndex p xs = Some i \<and> xs ! i = x"
  by (induction xs) (auto split: if_splits)

lemma find_Some_set: "find p xs = Some x \<Longrightarrow> x \<in> set xs \<and> p x"
  by (induction xs) (auto split: if_splits)

text \<open>
  \<^verbatim>\<open>authMiddleware\<close> lets a request pass exactly when the header names a stored user;
  the user it attaches is the first one with that identifier.
\<close>

lemma authMiddleware_Inr:
  "authMiddleware d req = Inr req' \<Longrightarrow>
     \<exists>uid u. x_user_id req = Some uid \<and> uid \<noteq> [] \<and>
       find (\<lambda>u. strict_eq (obj_get u ''id'') (JStr uid)) (users d) = Some u \<and>
       obj_get u ''id'' = JStr uid \<and> req' = req\<lparr>user := Some u\<rparr>"
  by (auto simp: authMiddleware_def split: option.splits if_splits dest: find_Some_set)

lemma authMiddleware_Inl:
  "authMiddleware d req = Inl r \<Longrightarrow>
     r = (401, message ''Unauthorized: User ID is required.'') \<or>
     r = (401, message ''Unauthorized: User not found.'')"
  by (auto simp: authMiddleware_def split: option.splits if_splits)

lemma authMiddleware_Some:
  "authMiddleware d (incoming (Some uid) b oid) = Inr req' \<Longrightarrow>
     \<exists>u. uid \<noteq> [] \<and> find (\<lambda>u. obj_get u ''id'' = JStr uid) (users d) = Some u \<and>
         obj_get u ''id'' = JStr uid \<and> u \<in> set (users d) \<and>
         req' = (incoming (Some uid) b oid)\<lparr>user := Some u\<rparr>"
  by (auto simp: authMiddleware_def incoming_def split: option.splits if_splits dest: find_Some_set)

lemma authMiddleware_users:
  "users d' = users d \<Longrightarrow> authMiddleware d' req = authMiddleware d req"
  unfolding authMiddleware_def by (erule ssubst) (rule refl)

lemma route_auth:
  "route [authMiddleware] hdl d req =
     (case authMiddleware d req of Inl r \<Rightarrow> Inr (r, d) | Inr req' \<Rightarrow> hdl d req')"
  by (simp split: sum.splits)

lemma route_auth_admin:
  "route [authMiddleware, adminMiddleware] hdl d req =
     (case authMiddleware d req of
        Inl r \<Rightarrow> Inr (r, d)
      | Inr req' \<Rightarrow> (case adminMiddleware d req' of Inl r \<Rightarrow> Inr (r, d) | Inr req'' \<Rightarrow> hdl d req''))"
  by (simp split: sum.splits)

section \<open>What each route does to the database\<close>

lemma update_profile_run:
  assumes auth: "authMiddleware d (incoming h b oid) = Inr req'"
  shows "\<exists>i u. user req' = Some u \<and> i < length (users d) \<and> users d ! i = u \<and>
           (\<forall>j<i. obj_get (users d ! j) ''id'' \<noteq> obj_get u ''id'') \<and>
           app PutUsersProfile d (incoming h b oid) =
             Inr ((200, JObj [(''message'', JStr ''Profile updated successfully!''),
                              (''user'', JObj (obj_set ''profilePic'' (obj_get b ''profilePic'')
                                                (obj_set ''address'' (obj_get b ''address'')
                                                  (obj_set ''email'' (obj_get b ''email'')
                                                    (obj_set ''name'' (obj_get b ''name'') u)))))]),
                  d\<lparr>users := (users d)[i := obj_set ''profilePic'' (obj_get b ''profilePic'')
                                                (obj_set ''address'' (obj_get b ''address'')
                                                  (obj_set ''email'' (obj_get b ''email'')
                                                    (obj_set ''name'' (obj_get b ''name'') u)))]\<rparr>)"
proof -
  from authMiddleware_Inr [OF auth] obtain uid u where
    u: "find (\<lambda>u. strict_eq (obj_get u ''id'') (JStr uid)) (users d) = Some u"
       "obj_get u ''id'' = JStr uid" "req' = (incoming h b oid)\<lparr>user := Some u\<rparr>"
    by auto
  from find_findIndex [OF u(1)] obtain i where
    i: "findIndex (\<lambda>u. strict_eq (obj_get u ''id'') (JStr uid)) (users d) = Some i" "users d ! i = u"
    by auto
  from findIndex_Some [OF i(1)] have
    il: "i < length (users d)" and first: "\<forall>j<i. obj_get (users d ! j) ''id'' \<noteq> JStr uid"
    by auto
  have "app PutUsersProfile d (incoming h b oid) = update_profile d req'"
    using auth by (simp add: route_auth)
  also have "\<dots> = Inr ((200, JObj [(''message'', JStr ''Profile updated successfully!''),
                              (''user'', JObj (obj_set ''profilePic'' (obj_get b ''profilePic'')
                                                (obj_set ''address'' (obj_get b ''address'')
                                                  (obj_set ''email'' (obj_get b ''email'')
                                                    (obj_set ''name'' (obj_get b ''name'') u)))))]),
                  d\<lparr>users := (users d)[i := obj_set ''profilePic'' (obj_get b ''profilePic'')
                                                (obj_set ''address'' (obj_get b ''address'')
                                                  (obj_set ''email'' (obj_get b ''email'')
                                                    (obj_set ''name'' (obj_get b ''name'') u)))]\<rparr>)"
    using u(2,3) i il by (simp add: update_profile_def incoming_def Let_def)
  finally show ?thesis
    using u(2,3) i(2) il first by auto
qed

lemma cancel_order_found:
  assumes auth: "authMiddleware d (incoming (Some uid) b oid) = Inr req'"
    and found: "findIndex (\<lambda>x. obj_get x ''id'' = JStr oid \<and> obj_get x ''userId'' = JStr uid) (orders d) = Some i"
  shows "app PutOrdersCancel d (incoming (Some uid) b oid) =
     (if obj_get (orders d ! i) ''status'' = JStr ''placed''
      then Inr ((200, JObj (obj_set ''status'' (JStr ''cancelled'') (orders d ! i))),
                d\<lparr>orders := (orders d)[i := obj_set ''status'' (JStr ''cancelled'') (orders d ! i)]\<rparr>)
      else Inr ((400, message (''Only orders with '' @ [CHR 0x22] @ ''placed''
                                         @ [CHR 0x22] @ '' status can be cancelled.'')), d))"
proof -
  from authMiddleware_Some [OF auth] obtain u where
    u: "obj_get u ''id'' = JStr uid" "req' = (incoming (Some uid) b oid)\<lparr>user := Some u\<rparr>"
    by auto
  from findIndex_Some [OF found] have "i < length (orders d)"
    by simp
  with auth u found show ?thesis
    by (simp add: route_auth cancel_order_def incoming_def Let_def)
qed

lemma cancel_order_missing:
  assumes auth: "authMiddleware d (incoming (Some uid) b oid) = Inr req'"
    and found: "findIndex (\<lambda>x. obj_get x ''id'' = JStr oid \<and> obj_get x ''userId'' = JStr uid) (orders d) = None"
  shows "app PutOrdersCancel d (incoming (Some uid) b oid) =
     Inr ((404, message ''Order not found or you do not have permission to cancel it.''), d)"
proof -
  from authMiddleware_Some [OF auth] obtain u where
    u: "obj_get u ''id'' = JStr uid" "req' = (incoming (Some uid) b oid)\<lparr>user := Some u\<rparr>"
    by auto
  with auth found show ?thesis
    by (simp add: route_auth cancel_order_def incoming_def)
qed

lemma register_effect:
  "register now d req = Inr (r, d') \<Longrightarrow>
     d' = d \<or> (\<exists>u. d' = d\<lparr>users := users d @ [u]\<rparr> \<and> truthy (obj_get u ''password''))"
  by (auto simp: register_def Let_def obj_get_def split: if_splits sum.splits)

lemma login_effect: "login d req = Inr (r, d') \<Longrightarrow> d' = d"
  by (auto simp: login_def Let_def split: option.splits)

lemma cancel_order_effect:
  assumes "authMiddleware d req = Inr req'" "cancel_order d req' = Inr (r, d')"
  shows "d' = d \<or>
     (\<exists>i s t. findIndex (\<lambda>x. obj_get x ''id'' = JStr s \<and> obj_get x ''userId'' = JStr t) (orders d) = Some i
        \<and> obj_get (orders d ! i) ''status'' = JStr ''placed''
        \<and> fst r = 200
        \<and> d' = d\<lparr>orders := (orders d)[i := obj_set ''status'' (JStr ''cancelled'') (orders d ! i)]\<rparr>)"
proof -
  from authMiddleware_Inr [OF assms(1)] obtain uid u where
    u: "obj_get u ''id'' = JStr uid" "req' = req\<lparr>user := Some u\<rparr>"
    by auto
  show ?thesis
  proof (cases "findIndex (\<lambda>x. obj_get x ''id'' = JStr (orderId req) \<and> obj_get x ''userId'' = JStr uid)
                  (orders d)")
    case None
    with assms(2) u show ?thesis
      by (simp add: cancel_order_def)
  next
    case (Some i)
    show ?thesis
    proof (cases "obj_get (orders d ! i) ''status'' = JStr ''placed''")
      case True
      with assms(2) u Some have
        "fst r = 200"
        "d' = d\<lparr>orders := (orders d)[i := obj_set ''status'' (JStr ''cancelled'') (orders d ! i)]\<rparr>"
        by (auto simp: cancel_order_def Let_def)
      with Some True show ?thesis
        by blast
    next
      case False
      with assms(2) u Some show ?thesis
        by (simp add: cancel_order_def)
    qed
  qed
qed

lemma create_order_effect:
  assumes "authMiddleware d req = Inr req'" "create_order now d req' = Inr (r, d')"
  shows "\<exists>x s t. d' = d\<lparr>orders := orders d @ [x]\<rparr> \<and> obj_get x ''id'' = JStr s \<and>
           obj_get x ''userId'' = JStr t \<and> obj_get x ''status'' = JStr ''placed''"
proof -
  from authMiddleware_Inr [OF assms(1)] obtain uid u where
    u: "obj_get u ''id'' = JStr uid" "req' = req\<lparr>user := Some u\<rparr>"
    by auto
  show ?thesis
    using assms(2) u
    by (auto simp: create_order_def Let_def obj_get_obj_set)
qed

lemma app_effect:
  assumes "app e d (incoming h b oid) = Inr (r, d')"
  shows "d' = d
    \<or> (\<exists>u. d' = d\<lparr>users := users d @ [u]\<rparr> \<and> truthy (obj_get u ''password''))
    \<or> (\<exists>i v. i < length (users d) \<and> d' = d\<lparr>users := (users d)[i := v]\<rparr> \<and>
          obj_get v ''password'' = obj_get (users d ! i) ''password'')
    \<or> (\<exists>x s t. d' = d\<lparr>orders := orders d @ [x]\<rparr> \<and> obj_get x ''id'' = JStr s \<and>
           obj_get x ''userId'' = JStr t \<and> obj_get x ''status'' = JStr ''placed'')
    \<or> (\<exists>i s t. findIndex (\<lambda>x. obj_get x ''id'' = JStr s \<and> obj_get x ''userId'' = JStr t) (orders d) = Some i
        \<and> obj_get (orders d ! i) ''status'' = JStr ''placed''
        \<and> d' = d\<lparr>orders := (orders d)[i := obj_set ''status'' (JStr ''cancelled'') (orders d ! i)]\<rparr>)
    \<or> (\<exists>t. d' = d\<lparr>supportTickets := supportTickets d @ [t]\<rparr>)"
proof (cases e)
  case (PostUsersRegister now)
  with assms register_effect [of now d "incoming h b oid" r d'] show ?thesis
    by auto
next
  case PostUsersLogin
  with assms login_effect [of d "incoming h b oid" r d'] show ?thesis
    by auto
next
  case GetUsersProfile
  with assms show ?thesis
    by (auto simp: route_auth get_profile_def split: sum.splits option.splits)
next
  case PutUsersProfile
  show ?thesis
  proof (cases "authMiddleware d (incoming h b oid)")
    case (Inl a)
    with assms PutUsersProfile show ?thesis by (simp add: route_auth)
  next
    case (Inr req')
    from update_profile_run [OF Inr] assms PutUsersProfile obtain i where
      "i < length (users d)"
      "d' = d\<lparr>users := (users d)[i := obj_set ''profilePic'' (obj_get b ''profilePic'')
                                                (obj_set ''address'' (obj_get b ''address'')
                                                  (obj_set ''email'' (obj_get b ''email'')
                                                    (obj_set ''name'' (obj_get b ''name'') (users d ! i))))]\<rparr>"
      by auto
    then have "\<exists>i v. i < length (users d) \<and> d' = d\<lparr>users := (users d)[i := v]\<rparr> \<and>
          obj_get v ''password'' = obj_get (users d ! i) ''password''"
      by (auto simp: obj_get_obj_set intro!: exI)
    then show ?thesis
      by blast
  qed
next
  case (PostOrders now)
  show ?thesis
  proof (cases "authMiddleware d (incoming h b oid)")
    case (Inl a)
    with assms PostOrders show ?thesis by (simp add: route_auth)
  next
    case (Inr req')
    with assms PostOrders have "create_order now d req' = Inr (r, d')"
      by (simp add: route_auth)
    from create_order_effect [OF Inr this] show ?thesis
      by blast
  qed
next
  case GetOrders
  with assms show ?thesis
    by (auto simp: route_auth list_orders_def split: sum.splits option.splits if_splits)
next
  case PutOrdersCancel
  show ?thesis
  proof (cases "authMiddleware d (incoming h b oid)")
    case (Inl a)
    with assms PutOrdersCancel show ?thesis by (simp add: route_auth)
  next
    case (Inr req')
    with assms PutOrdersCancel have "cancel_order d req' = Inr (r, d')"
      by (simp add: route_auth)
    from cancel_order_effect [OF Inr this] show ?thesis
      by blast
  qed
next
  case GetAdminStats
  with assms show ?thesis
    by (auto simp: route_auth_admin admin_stats_def split: sum.splits)
next
  case GetAdminUsers
  with assms show ?thesis
    by (auto simp: route_auth_admin admin_users_def split: sum.splits)
next
  case GetAdminOrders
  with assms show ?thesis
    by (auto simp: route_auth_admin admin_orders_def split: sum.splits)
next
  case GetSupportTickets
  with assms show ?thesis
    by (auto simp: route_auth list_tickets_def split: sum.splits option.splits if_splits)
next
  case (PostSupportTickets now created entered)
  with assms show ?thesis
    by (auto simp: route_auth submit_ticket_def Let_def split: sum.splits option.splits)
qed

section \<open>The invariants hold in every reachable database\<close>

lemma users_wf_init: "users_wf init_db"
  by (simp add: users_wf_def init_db_def obj_get_def)

lemma orders_wf_init: "orders_wf init_db"
  by (simp add: orders_wf_def init_db_def)

lemma users_wf_step:
  assumes "users_wf d" "app e d (incoming h b oid) = Inr (r, d')"
  shows "users_wf d'"
proof -
  have upd: "users_wf (d\<lparr>users := (users d)[i := v]\<rparr>)" if "i < length (users d)" "obj_get v ''password'' = obj_get (users d ! i) ''password''" for i v
  proof -
    from that assms(1) have "truthy (obj_get v ''password'')"
      by (simp add: users_wf_def)
    with assms(1) show ?thesis
      by (auto simp: users_wf_def dest: set_update_subset_insert [THEN subsetD])
  qed
  from app_effect [OF assms(2)] assms(1) upd show ?thesis
    by (auto simp: users_wf_def)
qed

lemma orders_wf_append:
  assumes "orders_wf d" "obj_get x ''id'' = JStr s" "obj_get x ''userId'' = JStr t"
    "obj_get x ''status'' = JStr ''placed''"
  shows "orders_wf (d\<lparr>orders := orders d @ [x]\<rparr>)"
  unfolding orders_wf_def
proof (intro allI impI)
  fix i
  assume "i < length (orders (d\<lparr>orders := orders d @ [x]\<rparr>))"
  then consider "i < length (orders d)" | "i = length (orders d)"
    by fastforce
  then show "(\<exists>s. obj_get (orders (d\<lparr>orders := orders d @ [x]\<rparr>) ! i) ''id'' = JStr s) \<and>
        (\<exists>s. obj_get (orders (d\<lparr>orders := orders d @ [x]\<rparr>) ! i) ''userId'' = JStr s) \<and>
        (obj_get (orders (d\<lparr>orders := orders d @ [x]\<rparr>) ! i) ''status'' \<noteq> JStr ''placed'' \<longrightarrow>
           (\<forall>j<i. obj_get (orders (d\<lparr>orders := orders d @ [x]\<rparr>) ! j) ''id''
                    \<noteq> obj_get (orders (d\<lparr>orders := orders d @ [x]\<rparr>) ! i) ''id'' \<or>
                  obj_get (orders (d\<lparr>orders := orders d @ [x]\<rparr>) ! j) ''userId''
                    \<noteq> obj_get (orders (d\<lparr>orders := orders d @ [x]\<rparr>) ! i) ''userId''))"
  proof cases
    case 1
    with assms(1) show ?thesis
      by (simp add: orders_wf_def nth_append)
  next
    case 2
    with assms(2-4) show ?thesis
      by simp
  qed
qed

lemma orders_wf_cancel:
  assumes wf: "orders_wf d"
    and found: "findIndex (\<lambda>x. obj_get x ''id'' = JStr s \<and> obj_get x ''userId'' = JStr t) (orders d) = Some i"
  shows "orders_wf (d\<lparr>orders := (orders d)[i := obj_set ''status'' (JStr ''cancelled'') (orders d ! i)]\<rparr>)"
proof -
  let ?os = "(orders d)[i := obj_set ''status'' (JStr ''cancelled'') (orders d ! i)]"
  from findIndex_Some [OF found] have
    il: "i < length (orders d)" and
    hit: "obj_get (orders d ! i) ''id'' = JStr s" "obj_get (orders d ! i) ''userId'' = JStr t" and
    first: "\<forall>j<i. obj_get (orders d ! j) ''id'' \<noteq> JStr s \<or> obj_get (orders d ! j) ''userId'' \<noteq> JStr t"
    by auto
  have keys: "obj_get (?os ! j) ''id'' = obj_get (orders d ! j) ''id''"
             "obj_get (?os ! j) ''userId'' = obj_get (orders d ! j) ''userId''" if "j < length (orders d)" for j
    using that il by (simp_all add: nth_list_update obj_get_obj_set)
  have status: "obj_get (?os ! j) ''status'' = obj_get (orders d ! j) ''status''" if "j < length (orders d)" "j \<noteq> i" for j
    using that il by (simp add: nth_list_update)
  show ?thesis
    unfolding orders_wf_def
  proof (intro allI impI)
    fix k
    assume "k < length (orders (d\<lparr>orders := ?os\<rparr>))"
    then have kl: "k < length (orders d)"
      by simp
    have below: "j < length (orders d)" if "j < k" for j
      using that kl by simp
    show "(\<exists>s. obj_get (orders (d\<lparr>orders := ?os\<rparr>) ! k) ''id'' = JStr s) \<and>
        (\<exists>s. obj_get (orders (d\<lparr>orders := ?os\<rparr>) ! k) ''userId'' = JStr s) \<and>
        (obj_get (orders (d\<lparr>orders := ?os\<rparr>) ! k) ''status'' \<noteq> JStr ''placed'' \<longrightarrow>
           (\<forall>j<k. obj_get (orders (d\<lparr>orders := ?os\<rparr>) ! j) ''id''
                    \<noteq> obj_get (orders (d\<lparr>orders := ?os\<rparr>) ! k) ''id'' \<or>
                  obj_get (orders (d\<lparr>orders := ?os\<rparr>) ! j) ''userId''
                    \<noteq> obj_get (orders (d\<lparr>orders := ?os\<rparr>) ! k) ''userId''))"
    proof (cases "k = i")
      case True
      with il hit first wf show ?thesis
        by (simp add: obj_get_obj_set orders_wf_def)
    next
      case False
      with kl wf show ?thesis
        by (simp add: keys status below orders_wf_def)
    qed
  qed
qed

lemma orders_wf_step:
  assumes "orders_wf d" "app e d (incoming h b oid) = Inr (r, d')"
  shows "orders_wf d'"
proof -
  have frame: "orders_wf d2" if "orders d2 = orders d" for d2 :: db
    using that assms(1) by (simp add: orders_wf_def)
  from app_effect [OF assms(2)] show ?thesis
    using assms(1) orders_wf_append orders_wf_cancel
    by (elim disjE exE conjE) (simp_all add: frame)
qed

lemma reachable_wf: "reachable d \<Longrightarrow> users_wf d \<and> orders_wf d"
proof (induction rule: reachable.induct)
  case init
  show ?case by (simp add: users_wf_init orders_wf_init)
next
  case (step d e h b oid r d')
  then show ?case
    by (auto intro: users_wf_step orders_wf_step)
qed

lemma reachable_serve: "reachable d \<Longrightarrow> reachable (serve d reqs)"
proof (induction reqs arbitrary: d)
  case Nil
  then show ?case by simp
next
  case (Cons q reqs)
  obtain e h b oid where q: "q = (e, h, b, oid)"
    by (cases q) auto
  show ?case
  proof (cases "app e d (incoming h b oid)")
    case (Inl err)
    with Cons q show ?thesis by simp
  next
    case (Inr p)
    obtain r d' where p: "p = (r, d')"
      by (cases p) auto
    from Cons.prems Inr p have "reachable d'"
      by (auto intro: reachable.step)
    with Cons.IH Inr p q show ?thesis
      by simp
  qed
qed

section \<open>Evaluating concrete requests\<close>

text \<open>
  Closed instances are computed by rewriting. The decimal numerals and ISO dates of the
  clock readings used below are computed once.
\<close>

lemma replicate_numeral_unfold: "replicate (numeral k) c = c # replicate (pred_numeral k) c"
  by (simp add: numeral_eq_Suc)

lemma string_of_nat_digit: "n < 10 \<Longrightarrow> string_of_nat n = [digit_char n]"
  by (simp add: string_of_nat.simps)

lemma string_of_nat_step: "10 \<le> n \<Longrightarrow> string_of_nat n = string_of_nat (n div 10) @ [digit_char (n mod 10)]"
  by (subst string_of_nat.simps) simp

lemmas string_of_nat_eval = string_of_nat_step string_of_nat_digit digit_char_def

lemma string_of_nat_1700000000000: "string_of_nat 1700000000000 = ''1700000000000''"
  by (simp add: string_of_nat_eval)

lemma string_of_nat_1700000005000: "string_of_nat 1700000005000 = ''1700000005000''"
  by (simp add: string_of_nat_eval)

lemma civil_from_days_19675: "civil_from_days 19675 = (2023, 11, 14)"
  by (simp add: civil_from_days_def cong: let_weak_cong)

lemma pad_values:
  "pad 4 2023 = ''2023''" "pad 2 11 = ''11''" "pad 2 14 = ''14''" "pad 2 22 = ''22''"
  "pad 2 13 = ''13''" "pad 2 20 = ''20''" "pad 3 0 = ''000''" "pad 3 (Suc 0) = ''001''"
  by (simp_all add: pad_def string_of_nat_eval replicate_numeral_unfold)

lemma toISOString_1700000000000: "toISOString 1700000000000 = ''2023-11-14T22:13:20.000Z''"
  by (simp add: toISOString_def civil_from_days_19675 pad_values)

lemma toISOString_1700000000001: "toISOString 1700000000001 = ''2023-11-14T22:13:20.001Z''"
  by (simp add: toISOString_def civil_from_days_19675 pad_values)

lemmas eval_defs =
  incoming_def init_db_def obj_get_def obj_set_def obj_rest_def message_def Let_def
  authMiddleware_def adminMiddleware_def register_def login_def get_profile_def
  update_profile_def create_order_def list_orders_def cancel_order_def admin_stats_def
  admin_users_def admin_orders_def list_tickets_def submit_ticket_def
  string_of_nat_1700000000000 string_of_nat_1700000005000
  toISOString_1700000000000 toISOString_1700000000001

lemma auth_admin_init:
  "authMiddleware init_db (incoming (Some ''U-1670000000000'') b oid) =
     Inr ((incoming (Some ''U-1670000000000'') b oid)\<lparr>user := Some (users init_db ! 0)\<rparr>)"
  by (simp add: eval_defs)

lemma create_order_admin_init:
  "app (PostOrders 1700000005000) init_db
     (incoming (Some ''U-1670000000000'') [(''item'', JStr ''cylinder'')] []) =
   Inr ((201, JObj [(''item'', JStr ''cylinder''),
                    (''userId'', JStr ''U-1670000000000''),
                    (''id'', JStr ''ORD-1700000005000''),
                    (''status'', JStr ''placed'')]),
        \<lparr> users = users init_db,
          orders = [[(''item'', JStr ''cylinder''),
                     (''userId'', JStr ''U-1670000000000''),
                     (''id'', JStr ''ORD-1700000005000''),
                     (''status'', JStr ''placed'')]],
          supportTickets = [] \<rparr>)"
  by (simp add: eval_defs cong: let_weak_cong)

lemma cancel_order_admin_placed:
  "app PutOrdersCancel
     \<lparr> users = users init_db,
       orders = [[(''item'', JStr ''cylinder''),
                  (''userId'', JStr ''U-1670000000000''),
                  (''id'', JStr ''ORD-1700000005000''),
                  (''status'', JStr ''placed'')]],
       supportTickets = [] \<rparr>
     (incoming (Some ''U-1670000000000'') [] ''ORD-1700000005000'') =
   Inr ((200, JObj [(''item'', JStr ''cylinder''),
                    (''userId'', JStr ''U-1670000000000''),
                    (''id'', JStr ''ORD-1700000005000''),
                    (''status'', JStr ''cancelled'')]),
        \<lparr> users = users init_db,
          orders = [[(''item'', JStr ''cylinder''),
                     (''userId'', JStr ''U-1670000000000''),
                     (''id'', JStr ''ORD-1700000005000''),
                     (''status'', JStr ''cancelled'')]],
          supportTickets = [] \<rparr>)"
  by (simp add: eval_defs cong: let_weak_cong)

lemma serve_order_cancelled:
  "serve init_db
     [(PostOrders 1700000005000, Some ''U-1670000000000'', [(''item'', JStr ''cylinder'')], []),
      (PutOrdersCancel, Some ''U-1670000000000'', [], ''ORD-1700000005000'')] =
   \<lparr> users = users init_db,
     orders = [[(''item'', JStr ''cylinder''),
                (''userId'', JStr ''U-1670000000000''),
                (''id'', JStr ''ORD-1700000005000''),
                (''status'', JStr ''cancelled'')]],
     supportTickets = [] \<rparr>"
  by (simp only: serve.simps create_order_admin_init cancel_order_admin_placed sum.case prod.case)

lemma register_bob_init:
  "app (PostUsersRegister 1700000000000) init_db
     (incoming None [(''name'', JStr ''Bob''), (''contact'', JStr ''9876543210''),
                     (''password'', JStr ''p2'')] []) =
   Inr ((201, JObj [(''message'', JStr ''Account created successfully!''),
                    (''user'', JObj [(''id'', JStr ''U-1700000000000''), (''name'', JStr ''Bob'')])]),
        \<lparr> users = users init_db @
                  [[(''id'', JStr ''U-1700000000000''),
                    (''name'', JStr ''Bob''),
                    (''password'', JStr ''p2''),
                    (''email'', JNull),
                    (''mobile'', JStr ''9876543210''),
                    (''address'', JStr ''''),
                    (''profilePic'', JStr ''''),
                    (''isAdmin'', JBool False)]],
          orders = [],
          supportTickets = [] \<rparr>)"
  by (simp add: eval_defs cong: let_weak_cong)

lemma create_order_admin_with_bob:
  "app (PostOrders 1700000005000)
     \<lparr> users = users init_db @
                  [[(''id'', JStr ''U-1700000000000''),
                    (''name'', JStr ''Bob''),
                    (''password'', JStr ''p2''),
                    (''email'', JNull),
                    (''mobile'', JStr ''9876543210''),
                    (''address'', JStr ''''),
                    (''profilePic'', JStr ''''),
                    (''isAdmin'', JBool False)]],
       orders = [],
       supportTickets = [] \<rparr>
     (incoming (Some ''U-1670000000000'') [(''item'', JStr ''cylinder'')] []) =
   Inr ((201, JObj [(''item'', JStr ''cylinder''),
                    (''userId'', JStr ''U-1670000000000''),
                    (''id'', JStr ''ORD-1700000005000''),
                    (''status'', JStr ''placed'')]),
        \<lparr> users = users init_db @
                  [[(''id'', JStr ''U-1700000000000''),
                    (''name'', JStr ''Bob''),
                    (''password'', JStr ''p2''),
                    (''email'', JNull),
                    (''mobile'', JStr ''9876543210''),
                    (''address'', JStr ''''),
                    (''profilePic'', JStr ''''),
                    (''isAdmin'', JBool False)]],
          orders = [[(''item'', JStr ''cylinder''),
                     (''userId'', JStr ''U-1670000000000''),
                     (''id'', JStr ''ORD-1700000005000''),
                     (''status'', JStr ''placed'')]],
          supportTickets = [] \<rparr>)"
  by (simp add: eval_defs cong: let_weak_cong)

lemma create_order_bob_same_ms:
  "app (PostOrders 1700000005000)
     \<lparr> users = users init_db @
                  [[(''id'', JStr ''U-1700000000000''),
                    (''name'', JStr ''Bob''),
                    (''password'', JStr ''p2''),
                    (''email'', JNull),
                    (''mobile'', JStr ''9876543210''),
                    (''address'', JStr ''''),
                    (''profilePic'', JStr ''''),
                    (''isAdmin'', JBool False)]],
       orders = [[(''item'', JStr ''cylinder''),
                  (''userId'', JStr ''U-1670000000000''),
                  (''id'', JStr ''ORD-1700000005000''),
                  (''status'', JStr ''placed'')]],
       supportTickets = [] \<rparr>
     (incoming (Some ''U-1700000000000'') [(''item'', JStr ''regulator'')] []) =
   Inr ((201, JObj [(''item'', JStr ''regulator''),
                    (''userId'', JStr ''U-1700000000000''),
                    (''id'', JStr ''ORD-1700000005000''),
                    (''status'', JStr ''placed'')]),
        \<lparr> users = users init_db @
                  [[(''id'', JStr ''U-1700000000000''),
                    (''name'', JStr ''Bob''),
                    (''password'', JStr ''p2''),
                    (''email'', JNull),
                    (''mobile'', JStr ''9876543210''),
                    (''address'', JStr ''''),
                    (''profilePic'', JStr ''''),
                    (''isAdmin'', JBool False)]],
          orders = [[(''item'', JStr ''cylinder''),
                     (''userId'', JStr ''U-1670000000000''),
                     (''id'', JStr ''ORD-1700000005000''),
                     (''status'', JStr ''placed'')],
                    [(''item'', JStr ''regulator''),
                     (''userId'', JStr ''U-1700000000000''),
                     (''id'', JStr ''ORD-1700000005000''),
                     (''status'', JStr ''placed'')]],
          supportTickets = [] \<rparr>)"
  by (simp add: eval_defs cong: let_weak_cong)

lemma serve_bob:
  "serve init_db
     [(PostUsersRegister 1700000000000, None,
         [(''name'', JStr ''Bob''), (''contact'', JStr ''9876543210''), (''password'', JStr ''p2'')], [])] =
   \<lparr> users = users init_db @
                  [[(''id'', JStr ''U-1700000000000''),
                    (''name'', JStr ''Bob''),
                    (''password'', JStr ''p2''),
                    (''email'', JNull),
                    (''mobile'', JStr ''9876543210''),
                    (''address'', JStr ''''),
                    (''profilePic'', JStr ''''),
                    (''isAdmin'', JBool False)]],
     orders = [],
     supportTickets = [] \<rparr>"
  by (simp only: serve.simps register_bob_init sum.case prod.case)

lemma serve_bob_admin_order:
  "serve init_db
     [(PostUsersRegister 1700000000000, None,
         [(''name'', JStr ''Bob''), (''contact'', JStr ''9876543210''), (''password'', JStr ''p2'')], []),
      (PostOrders 1700000005000, Some ''U-1670000000000'', [(''item'', JStr ''cylinder'')], [])] =
   \<lparr> users = users init_db @
                  [[(''id'', JStr ''U-1700000000000''),
                    (''name'', JStr ''Bob''),
                    (''password'', JStr ''p2''),
                    (''email'', JNull),
                    (''mobile'', JStr ''9876543210''),
                    (''address'', JStr ''''),
                    (''profilePic'', JStr ''''),
                    (''isAdmin'', JBool False)]],
     orders = [[(''item'', JStr ''cylinder''),
                (''userId'', JStr ''U-1670000000000''),
                (''id'', JStr ''ORD-1700000005000''),
                (''status'', JStr ''placed'')]],
     supportTickets = [] \<rparr>"
  by (simp only: serve.simps register_bob_init create_order_admin_with_bob sum.case prod.case)

lemma serve_two_orders_same_ms:
  "serve init_db
     [(PostUsersRegister 1700000000000, None,
         [(''name'', JStr ''Bob''), (''contact'', JStr ''9876543210''), (''password'', JStr ''p2'')], []),
      (PostOrders 1700000005000, Some ''U-1670000000000'', [(''item'', JStr ''cylinder'')], []),
      (PostOrders 1700000005000, Some ''U-1700000000000'', [(''item'', JStr ''regulator'')], [])] =
   \<lparr> users = users init_db @
                  [[(''id'', JStr ''U-1700000000000''),
                    (''name'', JStr ''Bob''),
                    (''password'', JStr ''p2''),
                    (''email'', JNull),
                    (''mobile'', JStr ''9876543210''),
                    (''address'', JStr ''''),
                    (''profilePic'', JStr ''''),
                    (''isAdmin'', JBool False)]],
     orders = [[(''item'', JStr ''cylinder''),
                (''userId'', JStr ''U-1670000000000''),
                (''id'', JStr ''ORD-1700000005000''),
                (''status'', JStr ''placed'')],
               [(''item'', JStr ''regulator''),
                (''userId'', JStr ''U-1700000000000''),
                (''id'', JStr ''ORD-1700000005000''),
                (''status'', JStr ''placed'')]],
     supportTickets = [] \<rparr>"
  by (simp only: serve.simps register_bob_init create_order_admin_with_bob
        create_order_bob_same_ms sum.case prod.case)

section \<open>Login\<close>

text \<open>
  Login never changes the database and answers either 401 or 200 with the identifier,
  name and admin flag of a stored user, never the password. When contact and password
  are both strings, it answers 200 exactly when some stored user has that string as
  \<^verbatim>\<open>email\<close> or \<^verbatim>\<open>mobile\<close> and that string as \<^verbatim>\<open>password\<close>, with the first
  such user's data.
\<close>

lemma login_response:
  "\<exists>r. app PostUsersLogin d (incoming h b oid) = Inr (r, d) \<and>
     (r = (401, message ''Incorrect mobile number/email or password.'') \<or>
      (\<exists>u\<in>set (users d).
         r = (200, JObj [(''message'', JStr ''Login successful!''),
                         (''user'', JObj [(''id'', obj_get u ''id''),
                                          (''name'', obj_get u ''name''),
                                          (''isAdmin'', JBool (truthy (obj_get u ''isAdmin'')))])])))"
  by (auto simp: login_def incoming_def Let_def split: option.splits dest: find_Some_set)

lemma login_string_credentials:
  assumes "obj_get b ''contact'' = JStr c" "obj_get b ''password'' = JStr p"
  shows "app PostUsersLogin d (incoming h b oid) =
     (case find (\<lambda>u. (obj_get u ''email'' = JStr c \<or> obj_get u ''mobile'' = JStr c) \<and>
                       obj_get u ''password'' = JStr p) (users d) of
        Some u \<Rightarrow>
          Inr ((200, JObj [(''message'', JStr ''Login successful!''),
                           (''user'', JObj [(''id'', obj_get u ''id''),
                                            (''name'', obj_get u ''name''),
                                            (''isAdmin'', JBool (truthy (obj_get u ''isAdmin'')))])]),
               d)
      | None \<Rightarrow> Inr ((401, message ''Incorrect mobile number/email or password.''), d))"
  using assms by (simp add: login_def incoming_def Let_def)

text \<open>
  Claim C1 (login succeeds exactly on a matching contact and password; a missing contact
  or password fails with 401). The lookup compares \<^verbatim>\<open>u.email === contact || u.mobile === contact\<close>
  without checking that a contact was sent, the way registration does. The seeded admin
  has no \<^verbatim>\<open>mobile\<close> property, so a body without \<^verbatim>\<open>contact\<close> matches it:
  in the initial database the request \<^verbatim>\<open>{"password": "admin"}\<close> is answered 200 with
  the admin's identifier, name and admin flag.
\<close>

theorem login_without_contact_as_admin:
  "app PostUsersLogin init_db (incoming None [(''password'', JStr ''admin'')] []) =
     Inr ((200, JObj [(''message'', JStr ''Login successful!''),
                      (''user'', JObj [(''id'', JStr ''U-1670000000000''),
                                       (''name'', JStr ''Admin''),
                                       (''isAdmin'', JBool True)])]),
          init_db)"
  by (simp add: eval_defs cong: let_weak_cong)

section \<open>Registration\<close>

text \<open>
  Claim C2 (a registration's fresh identifier differs from every stored one). The
  identifier is \<^verbatim>\<open>`U-${Date.now()}`\<close>, so two registrations handled within one
  millisecond get the same identifier: both succeed, and the store then holds two users
  with the identifier \<^verbatim>\<open>U-1700000000000\<close>.
\<close>

theorem register_same_millisecond_same_id:
  "map (\<lambda>u. obj_get u ''id'')
     (users (serve init_db
        [(PostUsersRegister 1700000000000, None,
            [(''name'', JStr ''Alice''), (''contact'', JStr ''a@x.com''), (''password'', JStr ''p1'')], []),
         (PostUsersRegister 1700000000000, None,
            [(''name'', JStr ''Bob''), (''contact'', JStr ''b@x.com''), (''password'', JStr ''p2'')], [])]))
   = [JStr ''U-1670000000000'', JStr ''U-1700000000000'', JStr ''U-1700000000000'']"
  by (simp add: eval_defs cong: let_weak_cong)

text \<open>
  Claim C8, as amended: when name, contact and password are all present and the contact
  is a string, registration answers 409 exactly when some stored user holds that
  string in the field the contact is classified to (\<^verbatim>\<open>email\<close> if it contains
  \<^verbatim>\<open>@\<close>, \<^verbatim>\<open>mobile\<close> otherwise), and otherwise answers 201 with the new identifier
  and the name only, having appended the new user. When any of the three is missing the
  answer is 400, whether or not the contact is held.
\<close>

theorem register_conflict_when_present:
  "(\<not> (truthy (obj_get b ''name'') \<and> truthy (obj_get b ''contact'') \<and> truthy (obj_get b ''password'')) \<longrightarrow>
      app (PostUsersRegister now) d (incoming h b oid) = Inr ((400, message ''Please fill all fields.''), d))
   \<and> (truthy (obj_get b ''name'') \<and> truthy (obj_get b ''password'') \<and>
        obj_get b ''contact'' = JStr c \<and> c \<noteq> [] \<longrightarrow>
        app (PostUsersRegister now) d (incoming h b oid) =
          (if \<exists>u\<in>set (users d). obj_get u (if CHR ''@'' \<in> set c then ''email'' else ''mobile'') = JStr c
           then Inr ((409, message ''An account with this mobile/email already exists.''), d)
           else Inr ((201, JObj [(''message'', JStr ''Account created successfully!''),
                                 (''user'', JObj [(''id'', JStr (''U-'' @ string_of_nat now)),
                                                  (''name'', obj_get b ''name'')])]),
                     d\<lparr>users := users d @
                        [[(''id'', JStr (''U-'' @ string_of_nat now)),
                          (''name'', obj_get b ''name''),
                          (''password'', obj_get b ''password''),
                          (''email'', if CHR ''@'' \<in> set c then JStr c else JNull),
                          (''mobile'', if CHR ''@'' \<in> set c then JNull else JStr c),
                          (''address'', JStr ''''),
                          (''profilePic'', JStr ''''),
                          (''isAdmin'', JBool False)]]\<rparr>)))"
proof (intro conjI impI)
  assume "\<not> (truthy (obj_get b ''name'') \<and> truthy (obj_get b ''contact'') \<and> truthy (obj_get b ''password''))"
  then show "app (PostUsersRegister now) d (incoming h b oid) = Inr ((400, message ''Please fill all fields.''), d)"
    by (auto simp: register_def incoming_def Let_def)
next
  assume a: "truthy (obj_get b ''name'') \<and> truthy (obj_get b ''password'') \<and>
        obj_get b ''contact'' = JStr c \<and> c \<noteq> []"
  have ex: "list_ex (\<lambda>u. obj_get u k = JStr c) (users d) \<longleftrightarrow> (\<exists>u\<in>set (users d). obj_get u k = JStr c)" for k
    by (simp add: list_ex_iff)
  show "app (PostUsersRegister now) d (incoming h b oid) =
          (if \<exists>u\<in>set (users d). obj_get u (if CHR ''@'' \<in> set c then ''email'' else ''mobile'') = JStr c
           then Inr ((409, message ''An account with this mobile/email already exists.''), d)
           else Inr ((201, JObj [(''message'', JStr ''Account created successfully!''),
                                 (''user'', JObj [(''id'', JStr (''U-'' @ string_of_nat now)),
                                                  (''name'', obj_get b ''name'')])]),
                     d\<lparr>users := users d @
                        [[(''id'', JStr (''U-'' @ string_of_nat now)),
                          (''name'', obj_get b ''name''),
                          (''password'', obj_get b ''password''),
                          (''email'', if CHR ''@'' \<in> set c then JStr c else JNull),
                          (''mobile'', if CHR ''@'' \<in> set c then JNull else JStr c),
                          (''address'', JStr ''''),
                          (''profilePic'', JStr ''''),
                          (''isAdmin'', JBool False)]]\<rparr>))"
  proof (cases "CHR ''@'' \<in> set c")
    case True
    with a show ?thesis
      by (simp add: register_def incoming_def Let_def ex) (simp add: obj_get_def)
  next
    case False
    with a show ?thesis
      by (simp add: register_def incoming_def Let_def ex) (simp add: obj_get_def)
  qed
qed

text \<open>
  Instances in the initial database: an empty body is refused with 400, the admin's
  e-mail address is refused with 409, and a new mobile number is registered.
\<close>

theorem register_conflict_when_present_witness:
  "app (PostUsersRegister 1700000000000) init_db (incoming None [] []) =
     Inr ((400, message ''Please fill all fields.''), init_db) \<and>
   app (PostUsersRegister 1700000000000) init_db
     (incoming None [(''name'', JStr ''Eve''), (''contact'', JStr ''admin@breakway.com''),
                     (''password'', JStr ''p3'')] []) =
     Inr ((409, message ''An account with this mobile/email already exists.''), init_db) \<and>
   app (PostUsersRegister 1700000000000) init_db
     (incoming None [(''name'', JStr ''Bob''), (''contact'', JStr ''9876543210''),
                     (''password'', JStr ''p2'')] []) =
     Inr ((201, JObj [(''message'', JStr ''Account created successfully!''),
                      (''user'', JObj [(''id'', JStr ''U-1700000000000''), (''name'', JStr ''Bob'')])]),
          init_db\<lparr>users := users init_db @
                  [[(''id'', JStr ''U-1700000000000''),
                    (''name'', JStr ''Bob''),
                    (''password'', JStr ''p2''),
                    (''email'', JNull),
                    (''mobile'', JStr ''9876543210''),
                    (''address'', JStr ''''),
                    (''profilePic'', JStr ''''),
                    (''isAdmin'', JBool False)]]\<rparr>)"
proof (intro conjI)
  have "\<not> (truthy (obj_get [] ''name'') \<and> truthy (obj_get [] ''contact'') \<and> truthy (obj_get [] ''password''))"
    by (simp add: obj_get_def)
  from register_conflict_when_present [of "[]" 1700000000000 init_db None "[]", THEN conjunct1, THEN mp, OF this]
  show "app (PostUsersRegister 1700000000000) init_db (incoming None [] []) =
     Inr ((400, message ''Please fill all fields.''), init_db)" .
next
  let ?b = "[(''name'', JStr ''Eve''), (''contact'', JStr ''admin@breakway.com''), (''password'', JStr ''p3'')]"
  have present: "truthy (obj_get ?b ''name'') \<and> truthy (obj_get ?b ''password'') \<and>
        obj_get ?b ''contact'' = JStr ''admin@breakway.com'' \<and> ''admin@breakway.com'' \<noteq> []"
    by (simp add: obj_get_def)
  have held: "\<exists>u\<in>set (users init_db).
      obj_get u (if CHR ''@'' \<in> set ''admin@breakway.com'' then ''email'' else ''mobile'')
        = JStr ''admin@breakway.com''"
    by (simp add: init_db_def obj_get_def)
  from register_conflict_when_present [of ?b 1700000000000 init_db None "[]" "''admin@breakway.com''",
      THEN conjunct2, THEN mp, OF present] held
  show "app (PostUsersRegister 1700000000000) init_db (incoming None ?b []) =
     Inr ((409, message ''An account with this mobile/email already exists.''), init_db)"
    by (simp only: if_True)
next
  let ?b = "[(''name'', JStr ''Bob''), (''contact'', JStr ''9876543210''), (''password'', JStr ''p2'')]"
  have present: "truthy (obj_get ?b ''name'') \<and> truthy (obj_get ?b ''password'') \<and>
        obj_get ?b ''contact'' = JStr ''9876543210'' \<and> ''9876543210'' \<noteq> []"
    by (simp add: obj_get_def)
  have free: "\<not> (\<exists>u\<in>set (users init_db).
      obj_get u (if CHR ''@'' \<in> set ''9876543210'' then ''email'' else ''mobile'')
        = JStr ''9876543210'')"
    by (simp add: init_db_def obj_get_def)
  from register_conflict_when_present [of ?b 1700000000000 init_db None "[]" "''9876543210''",
      THEN conjunct2, THEN mp, OF present] free
  show "app (PostUsersRegister 1700000000000) init_db (incoming None ?b []) =
     Inr ((201, JObj [(''message'', JStr ''Account created successfully!''),
                      (''user'', JObj [(''id'', JStr ''U-1700000000000''), (''name'', JStr ''Bob'')])]),
          init_db\<lparr>users := users init_db @
                  [[(''id'', JStr ''U-1700000000000''),
                    (''name'', JStr ''Bob''),
                    (''password'', JStr ''p2''),
                    (''email'', JNull),
                    (''mobile'', JStr ''9876543210''),
                    (''address'', JStr ''''),
                    (''profilePic'', JStr ''''),
                    (''isAdmin'', JBool False)]]\<rparr>)"
    by (simp add: string_of_nat_1700000000000 obj_get_def)
qed

text \<open>
  The presence check comes before the uniqueness check: a request that supplies the
  admin's e-mail address as contact but no name is answered 400, not 409.
\<close>

theorem register_missing_name_held_contact:
  "obj_get (users init_db ! 0) ''email'' = JStr ''admin@breakway.com'' \<and>
   app (PostUsersRegister 1700000000000) init_db
     (incoming None [(''contact'', JStr ''admin@breakway.com''), (''password'', JStr ''secret'')] []) =
   Inr ((400, message ''Please fill all fields.''), init_db)"
  by (simp add: eval_defs cong: let_weak_cong)

text \<open>
  A contact that is present but not text, such as a mobile number sent as a JSON
  number, has no \<^verbatim>\<open>includes\<close> method: the handler throws before it stores anything.
\<close>

lemma register_numeric_contact_throws:
  "app (PostUsersRegister 1700000000000) init_db
     (incoming None [(''name'', JStr ''Bob''), (''contact'', JNum 9876543210),
                     (''password'', JStr ''p2'')] []) = Inl TypeError"
  by (simp add: register_def incoming_def obj_get_def Let_def)

section \<open>Support tickets\<close>

text \<open>
  Claim C3, as amended: for an authenticated caller, submitting a ticket answers 201 and
  appends a ticket whose thread has exactly one entry, from \<^verbatim>\<open>customer\<close>, with the
  submitted message as text. The ticket's \<^verbatim>\<open>createdAt\<close> and the entry's \<^verbatim>\<open>at\<close> are
  the ISO dates of two successive clock readings; they are equal when both readings
  return the same millisecond.
\<close>

theorem submit_ticket_thread:
  assumes auth: "authMiddleware d (incoming (Some uid) b oid) = Inr req'"
  shows "\<exists>t en. app (PostSupportTickets now created entered) d (incoming (Some uid) b oid) =
             Inr ((201, JObj t), d\<lparr>supportTickets := supportTickets d @ [t]\<rparr>) \<and>
           obj_get t ''thread'' = JArr [JObj en] \<and>
           obj_get en ''from'' = JStr ''customer'' \<and>
           obj_get en ''text'' = obj_get b ''message'' \<and>
           obj_get en ''at'' = JStr (toISOString entered) \<and>
           obj_get t ''createdAt'' = JStr (toISOString created) \<and>
           obj_get t ''status'' = JStr ''open'' \<and>
           obj_get t ''userId'' = JStr uid"
proof -
  from authMiddleware_Some [OF auth] obtain u where
    u: "obj_get u ''id'' = JStr uid" "req' = (incoming (Some uid) b oid)\<lparr>user := Some u\<rparr>"
    by auto
  let ?en = "[(''from'', JStr ''customer''), (''text'', obj_get b ''message''),
              (''at'', JStr (toISOString entered))]"
  let ?t = "[(''id'', JStr (''T-'' @ string_of_nat now)),
             (''userId'', obj_get u ''id''),
             (''name'', obj_get u ''name''),
             (''message'', obj_get b ''message''),
             (''status'', JStr ''open''),
             (''createdAt'', JStr (toISOString created)),
             (''thread'', JArr [JObj ?en])]"
  have run: "app (PostSupportTickets now created entered) d (incoming (Some uid) b oid) =
             Inr ((201, JObj ?t), d\<lparr>supportTickets := supportTickets d @ [?t]\<rparr>)"
    using auth u(2) by (simp add: route_auth submit_ticket_def incoming_def Let_def)
  have fields: "obj_get ?t ''thread'' = JArr [JObj ?en]"
      "obj_get ?en ''from'' = JStr ''customer''"
      "obj_get ?en ''text'' = obj_get b ''message''"
      "obj_get ?en ''at'' = JStr (toISOString entered)"
      "obj_get ?t ''createdAt'' = JStr (toISOString created)"
      "obj_get ?t ''status'' = JStr ''open''"
      "obj_get ?t ''userId'' = JStr uid"
    using u(1) by (simp_all add: obj_get_def)
  from run fields show ?thesis
    by blast
qed

text \<open>
  An instance: the admin submits a ticket while the clock stands still, and the two
  timestamps coincide.
\<close>

theorem submit_ticket_thread_witness:
  "\<exists>t en. app (PostSupportTickets 1700000000000 1700000000000 1700000000000) init_db
             (incoming (Some ''U-1670000000000'') [(''message'', JStr ''No gas'')] []) =
             Inr ((201, JObj t), init_db\<lparr>supportTickets := supportTickets init_db @ [t]\<rparr>) \<and>
           obj_get t ''thread'' = JArr [JObj en] \<and>
           obj_get en ''from'' = JStr ''customer'' \<and>
           obj_get en ''text'' = JStr ''No gas'' \<and>
           obj_get en ''at'' = obj_get t ''createdAt''"
proof -
  have "\<exists>t en. app (PostSupportTickets 1700000000000 1700000000000 1700000000000) init_db
             (incoming (Some ''U-1670000000000'') [(''message'', JStr ''No gas'')] []) =
             Inr ((201, JObj t), init_db\<lparr>supportTickets := supportTickets init_db @ [t]\<rparr>) \<and>
           obj_get t ''thread'' = JArr [JObj en] \<and>
           obj_get en ''from'' = JStr ''customer'' \<and>
           obj_get en ''text'' = obj_get [(''message'', JStr ''No gas'')] ''message'' \<and>
           obj_get en ''at'' = JStr (toISOString 1700000000000) \<and>
           obj_get t ''createdAt'' = JStr (toISOString 1700000000000) \<and>
           obj_get t ''status'' = JStr ''open'' \<and>
           obj_get t ''userId'' = JStr ''U-1670000000000''"
    by (rule submit_ticket_thread [OF auth_admin_init])
  then show ?thesis
  proof (elim exE conjE)
    fix t en
    assume "app (PostSupportTickets 1700000000000 1700000000000 1700000000000) init_db
             (incoming (Some ''U-1670000000000'') [(''message'', JStr ''No gas'')] []) =
             Inr ((201, JObj t), init_db\<lparr>supportTickets := supportTickets init_db @ [t]\<rparr>)"
      and "obj_get t ''thread'' = JArr [JObj en]"
      and "obj_get en ''from'' = JStr ''customer''"
      and "obj_get en ''text'' = obj_get [(''message'', JStr ''No gas'')] ''message''"
      and "obj_get en ''at'' = JStr (toISOString 1700000000000)"
      and "obj_get t ''createdAt'' = JStr (toISOString 1700000000000)"
    then have "app (PostSupportTickets 1700000000000 1700000000000 1700000000000) init_db
             (incoming (Some ''U-1670000000000'') [(''message'', JStr ''No gas'')] []) =
             Inr ((201, JObj t), init_db\<lparr>supportTickets := supportTickets init_db @ [t]\<rparr>) \<and>
           obj_get t ''thread'' = JArr [JObj en] \<and>
           obj_get en ''from'' = JStr ''customer'' \<and>
           obj_get en ''text'' = JStr ''No gas'' \<and>
           obj_get en ''at'' = obj_get t ''createdAt''"
      by (simp add: obj_get_def)
    then show ?thesis
      by (intro exI)
  qed
qed

text \<open>
  When the clock advances between the two \<^verbatim>\<open>new Date()\<close> calls, the entry's timestamp
  differs from the ticket's creation timestamp.
\<close>

theorem submit_ticket_two_clock_readings:
  "app (PostSupportTickets 1700000000000 1700000000000 1700000000001) init_db
     (incoming (Some ''U-1670000000000'') [(''message'', JStr ''No gas'')] []) =
   Inr ((201, JObj [(''id'', JStr ''T-1700000000000''),
                    (''userId'', JStr ''U-1670000000000''),
                    (''name'', JStr ''Admin''),
                    (''message'', JStr ''No gas''),
                    (''status'', JStr ''open''),
                    (''createdAt'', JStr ''2023-11-14T22:13:20.000Z''),
                    (''thread'', JArr [JObj [(''from'', JStr ''customer''),
                                             (''text'', JStr ''No gas''),
                                             (''at'', JStr ''2023-11-14T22:13:20.001Z'')]])]),
        init_db\<lparr>supportTickets :=
          [[(''id'', JStr ''T-1700000000000''),
            (''userId'', JStr ''U-1670000000000''),
            (''name'', JStr ''Admin''),
            (''message'', JStr ''No gas''),
            (''status'', JStr ''open''),
            (''createdAt'', JStr ''2023-11-14T22:13:20.000Z''),
            (''thread'', JArr [JObj [(''from'', JStr ''customer''),
                                     (''text'', JStr ''No gas''),
                                     (''at'', JStr ''2023-11-14T22:13:20.001Z'')]])]]\<rparr>)"
  by (simp add: eval_defs cong: let_weak_cong)

section \<open>Profiles\<close>

text \<open>
  Claim C4: for an authenticated caller, updating the profile answers 200 and replaces
  the caller's record by one in which \<^verbatim>\<open>name\<close>, \<^verbatim>\<open>email\<close>, \<^verbatim>\<open>address\<close> and
  \<^verbatim>\<open>profilePic\<close> hold what the body holds under these names (\<^verbatim>\<open>undefined\<close> for a
  name the body lacks), and every other property is as before, in particular \<^verbatim>\<open>id\<close>,
  \<^verbatim>\<open>password\<close>, \<^verbatim>\<open>mobile\<close> and \<^verbatim>\<open>isAdmin\<close>. No other user, order or ticket changes.
\<close>

theorem update_profile_overwrites_four_fields:
  assumes "authMiddleware d (incoming h b oid) = Inr req'"
  shows "\<exists>i u r d'. user req' = Some u \<and> i < length (users d) \<and> users d ! i = u \<and>
           app PutUsersProfile d (incoming h b oid) = Inr (r, d') \<and> fst r = 200 \<and>
           orders d' = orders d \<and> supportTickets d' = supportTickets d \<and>
           length (users d') = length (users d) \<and>
           (\<forall>j<length (users d). j \<noteq> i \<longrightarrow> users d' ! j = users d ! j) \<and>
           (\<forall>k\<in>{''name'', ''email'', ''address'', ''profilePic''}.
              map_of (users d' ! i) k = Some (obj_get b k)) \<and>
           (\<forall>k. k \<notin> {''name'', ''email'', ''address'', ''profilePic''} \<longrightarrow>
              map_of (users d' ! i) k = map_of u k) \<and>
           obj_get (users d' ! i) ''id'' = obj_get u ''id'' \<and>
           obj_get (users d' ! i) ''password'' = obj_get u ''password'' \<and>
           obj_get (users d' ! i) ''mobile'' = obj_get u ''mobile'' \<and>
           obj_get (users d' ! i) ''isAdmin'' = obj_get u ''isAdmin''"
proof -
  from update_profile_run [OF assms] obtain i u where
    run: "user req' = Some u" "i < length (users d)" "users d ! i = u"
      "app PutUsersProfile d (incoming h b oid) =
             Inr ((200, JObj [(''message'', JStr ''Profile updated successfully!''),
                              (''user'', JObj (obj_set ''profilePic'' (obj_get b ''profilePic'')
                                                (obj_set ''address'' (obj_get b ''address'')
                                                  (obj_set ''email'' (obj_get b ''email'')
                                                    (obj_set ''name'' (obj_get b ''name'') u)))))]),
                  d\<lparr>users := (users d)[i := obj_set ''profilePic'' (obj_get b ''profilePic'')
                                                (obj_set ''address'' (obj_get b ''address'')
                                                  (obj_set ''email'' (obj_get b ''email'')
                                                    (obj_set ''name'' (obj_get b ''name'') u)))]\<rparr>)"
    by blast
  show ?thesis
    apply (rule exI [of _ i], rule exI [of _ u])
    apply (intro exI)
    apply (rule conjI [OF run(1)], rule conjI [OF run(2)], rule conjI [OF run(3)])
    apply (rule conjI [OF run(4)])
    using run(2)
    apply (simp add: map_of_obj_set obj_get_obj_set)
    done
qed

text \<open>
  An instance: the admin sends only a name; the name is replaced, the e-mail address is
  overwritten with \<^verbatim>\<open>undefined\<close>, password and admin flag stay.
\<close>

theorem update_profile_overwrites_four_fields_witness:
  "\<exists>r d'. app PutUsersProfile init_db
             (incoming (Some ''U-1670000000000'') [(''name'', JStr ''Root'')] []) = Inr (r, d') \<and>
          fst r = 200 \<and>
          map_of (users d' ! 0) ''name'' = Some (JStr ''Root'') \<and>
          map_of (users d' ! 0) ''email'' = Some JUndefined \<and>
          obj_get (users d' ! 0) ''password'' = JStr ''admin'' \<and>
          obj_get (users d' ! 0) ''isAdmin'' = JBool True"
  using update_profile_overwrites_four_fields
    [OF auth_admin_init, of "[(''name'', JStr ''Root'')]" "[]"]
proof (elim exE conjE)
  fix i u r d'
  assume u: "user ((incoming (Some ''U-1670000000000'') [(''name'', JStr ''Root'')] [])
              \<lparr>user := Some (users init_db ! 0)\<rparr>) = Some u"
    and i: "i < length (users init_db)"
    and run: "app PutUsersProfile init_db
          (incoming (Some ''U-1670000000000'') [(''name'', JStr ''Root'')] []) = Inr (r, d')"
    and r: "fst r = 200"
    and four: "\<forall>k\<in>{''name'', ''email'', ''address'', ''profilePic''}.
           map_of (users d' ! i) k = Some (obj_get [(''name'', JStr ''Root'')] k)"
    and pw: "obj_get (users d' ! i) ''password'' = obj_get u ''password''"
    and adm: "obj_get (users d' ! i) ''isAdmin'' = obj_get u ''isAdmin''"
  from i have i0: "i = 0"
    by (simp add: init_db_def)
  from u have u0: "u = users init_db ! 0"
    by simp
  from four have "map_of (users d' ! i) ''name'' = Some (JStr ''Root'')"
    "map_of (users d' ! i) ''email'' = Some JUndefined"
    by (simp_all add: obj_get_def)
  moreover from pw adm u0 have "obj_get (users d' ! i) ''password'' = JStr ''admin''"
    "obj_get (users d' ! i) ''isAdmin'' = JBool True"
    by (simp_all add: init_db_def obj_get_def)
  ultimately have "app PutUsersProfile init_db
             (incoming (Some ''U-1670000000000'') [(''name'', JStr ''Root'')] []) = Inr (r, d') \<and>
          fst r = 200 \<and>
          map_of (users d' ! 0) ''name'' = Some (JStr ''Root'') \<and>
          map_of (users d' ! 0) ''email'' = Some JUndefined \<and>
          obj_get (users d' ! 0) ''password'' = JStr ''admin'' \<and>
          obj_get (users d' ! 0) ''isAdmin'' = JBool True"
    using run r i0 by simp
  then show ?thesis
    by (intro exI)
qed

text \<open>
  Claim C5: for an authenticated caller, the 200 response of the profile update carries,
  under \<^verbatim>\<open>user\<close>, the record as it is stored after the update, with the
  \<^verbatim>\<open>password\<close> property the record had before; in every reachable database that
  password is present and not empty.
\<close>

theorem update_profile_returns_password:
  assumes "authMiddleware d (incoming h b oid) = Inr req'"
  shows "\<exists>i u u' d'. user req' = Some u \<and> i < length (users d) \<and> users d ! i = u \<and>
           app PutUsersProfile d (incoming h b oid) =
             Inr ((200, JObj [(''message'', JStr ''Profile updated successfully!''),
                              (''user'', JObj u')]), d') \<and>
           users d' ! i = u' \<and>
           map_of u' ''password'' = map_of u ''password'' \<and>
           obj_get u' ''password'' = obj_get u ''password'' \<and>
           (reachable d \<longrightarrow> truthy (obj_get u' ''password''))"
proof -
  from update_profile_run [OF assms] obtain i u where
    run: "user req' = Some u" "i < length (users d)" "users d ! i = u"
      "app PutUsersProfile d (incoming h b oid) =
             Inr ((200, JObj [(''message'', JStr ''Profile updated successfully!''),
                              (''user'', JObj (obj_set ''profilePic'' (obj_get b ''profilePic'')
                                                (obj_set ''address'' (obj_get b ''address'')
                                                  (obj_set ''email'' (obj_get b ''email'')
                                                    (obj_set ''name'' (obj_get b ''name'') u)))))]),
                  d\<lparr>users := (users d)[i := obj_set ''profilePic'' (obj_get b ''profilePic'')
                                                (obj_set ''address'' (obj_get b ''address'')
                                                  (obj_set ''email'' (obj_get b ''email'')
                                                    (obj_set ''name'' (obj_get b ''name'') u)))]\<rparr>)"
    by blast
  have pw: "reachable d \<longrightarrow> truthy (obj_get u ''password'')"
  proof
    assume "reachable d"
    then have "users_wf d"
      by (simp add: reachable_wf)
    moreover from run(2,3) have "u \<in> set (users d)"
      by auto
    ultimately show "truthy (obj_get u ''password'')"
      by (simp add: users_wf_def)
  qed
  show ?thesis
    apply (rule exI [of _ i], rule exI [of _ u])
    apply (intro exI)
    apply (rule conjI [OF run(1)], rule conjI [OF run(2)], rule conjI [OF run(3)])
    apply (rule conjI [OF run(4)])
    using run(2) pw
    apply (simp add: map_of_obj_set obj_get_obj_set)
    done
qed

text \<open>
  An instance: the admin's profile update returns the admin's password.
\<close>

theorem update_profile_returns_password_witness:
  "\<exists>u' d'. app PutUsersProfile init_db
             (incoming (Some ''U-1670000000000'') [(''name'', JStr ''Root'')] []) =
             Inr ((200, JObj [(''message'', JStr ''Profile updated successfully!''),
                              (''user'', JObj u')]), d') \<and>
          users d' ! 0 = u' \<and>
          obj_get u' ''password'' = JStr ''admin'' \<and>
          truthy (obj_get u' ''password'')"
  using update_profile_returns_password
    [OF auth_admin_init, of "[(''name'', JStr ''Root'')]" "[]"]
proof (elim exE conjE)
  fix i u u' d'
  assume u: "user ((incoming (Some ''U-1670000000000'') [(''name'', JStr ''Root'')] [])
              \<lparr>user := Some (users init_db ! 0)\<rparr>) = Some u"
    and i: "i < length (users init_db)"
    and run: "app PutUsersProfile init_db
             (incoming (Some ''U-1670000000000'') [(''name'', JStr ''Root'')] []) =
             Inr ((200, JObj [(''message'', JStr ''Profile updated successfully!''),
                              (''user'', JObj u')]), d')"
    and stored: "users d' ! i = u'"
    and pw: "obj_get u' ''password'' = obj_get u ''password''"
    and reach: "reachable init_db \<longrightarrow> truthy (obj_get u' ''password'')"
  from i have i0: "i = 0"
    by (simp add: init_db_def)
  from u have u0: "u = users init_db ! 0"
    by simp
  from pw u0 have "obj_get u' ''password'' = JStr ''admin''"
    by (simp add: init_db_def obj_get_def)
  moreover from reach reachable.init have "truthy (obj_get u' ''password'')"
    by (rule mp)
  ultimately have "app PutUsersProfile init_db
             (incoming (Some ''U-1670000000000'') [(''name'', JStr ''Root'')] []) =
             Inr ((200, JObj [(''message'', JStr ''Profile updated successfully!''),
                              (''user'', JObj u')]), d') \<and>
          users d' ! 0 = u' \<and>
          obj_get u' ''password'' = JStr ''admin'' \<and>
          truthy (obj_get u' ''password'')"
    using run stored i0 by simp
  then show ?thesis
    by (intro exI)
qed

text \<open>
  Claim C10: a profile fetch that resolves to a stored user answers 200 with that user's
  record without its \<^verbatim>\<open>password\<close> property and with every other property
  unchanged, whatever the record holds; the admin user list, requested by an admin,
  answers 200 with one such stripped record per stored user, in store order. Neither
  route answers anything else for such a request: without a resolvable identity both
  answer 401 with a message only, and the user list answers a resolved user who is not
  an admin with 403 and a message only.
\<close>

theorem get_profile_and_admin_users_strip_password:
  "((h = None \<or> h = Some [] \<or>
      (\<exists>uid. h = Some uid \<and> (\<forall>u\<in>set (users d). obj_get u ''id'' \<noteq> JStr uid))) \<longrightarrow>
      (\<exists>m. app GetUsersProfile d (incoming h b oid) = Inr ((401, message m), d)) \<and>
      (\<exists>m. app GetAdminUsers d (incoming h b oid) = Inr ((401, message m), d)))
   \<and>
   (\<forall>uid u. h = Some uid \<and> uid \<noteq> [] \<and>
        find (\<lambda>u. obj_get u ''id'' = JStr uid) (users d) = Some u \<longrightarrow>
      (\<exists>p. app GetUsersProfile d (incoming h b oid) = Inr ((200, JObj p), d) \<and>
           p = filter (\<lambda>kv. fst kv \<noteq> ''password'') u \<and>
           map_of p ''password'' = None \<and>
           (\<forall>k. k \<noteq> ''password'' \<longrightarrow> map_of p k = map_of u k)) \<and>
      (\<not> truthy (obj_get u ''isAdmin'') \<longrightarrow>
         app GetAdminUsers d (incoming h b oid) =
           Inr ((403, message ''Forbidden: Admin access required.''), d)) \<and>
      (truthy (obj_get u ''isAdmin'') \<longrightarrow>
         (\<exists>ps. app GetAdminUsers d (incoming h b oid) = Inr ((200, JArr (map JObj ps)), d) \<and>
            ps = map (filter (\<lambda>kv. fst kv \<noteq> ''password'')) (users d) \<and>
            length ps = length (users d) \<and>
            (\<forall>i<length ps. map_of (ps ! i) ''password'' = None \<and>
               (\<forall>k. k \<noteq> ''password'' \<longrightarrow> map_of (ps ! i) k = map_of (users d ! i) k)))))"
proof (intro conjI)
  show "(h = None \<or> h = Some [] \<or>
      (\<exists>uid. h = Some uid \<and> (\<forall>u\<in>set (users d). obj_get u ''id'' \<noteq> JStr uid))) \<longrightarrow>
      (\<exists>m. app GetUsersProfile d (incoming h b oid) = Inr ((401, message m), d)) \<and>
      (\<exists>m. app GetAdminUsers d (incoming h b oid) = Inr ((401, message m), d))"
  proof (rule impI)
    assume "h = None \<or> h = Some [] \<or>
      (\<exists>uid. h = Some uid \<and> (\<forall>u\<in>set (users d). obj_get u ''id'' \<noteq> JStr uid))"
    then have "\<exists>m. authMiddleware d (incoming h b oid) = Inl (401, message m)"
      by (auto simp: authMiddleware_def incoming_def split: option.splits dest: find_Some_set)
    then show "(\<exists>m. app GetUsersProfile d (incoming h b oid) = Inr ((401, message m), d)) \<and>
      (\<exists>m. app GetAdminUsers d (incoming h b oid) = Inr ((401, message m), d))"
      by (auto simp: route_auth route_auth_admin)
  qed
next
  show "\<forall>uid u. h = Some uid \<and> uid \<noteq> [] \<and>
        find (\<lambda>u. obj_get u ''id'' = JStr uid) (users d) = Some u \<longrightarrow>
      (\<exists>p. app GetUsersProfile d (incoming h b oid) = Inr ((200, JObj p), d) \<and>
           p = filter (\<lambda>kv. fst kv \<noteq> ''password'') u \<and>
           map_of p ''password'' = None \<and>
           (\<forall>k. k \<noteq> ''password'' \<longrightarrow> map_of p k = map_of u k)) \<and>
      (\<not> truthy (obj_get u ''isAdmin'') \<longrightarrow>
         app GetAdminUsers d (incoming h b oid) =
           Inr ((403, message ''Forbidden: Admin access required.''), d)) \<and>
      (truthy (obj_get u ''isAdmin'') \<longrightarrow>
         (\<exists>ps. app GetAdminUsers d (incoming h b oid) = Inr ((200, JArr (map JObj ps)), d) \<and>
            ps = map (filter (\<lambda>kv. fst kv \<noteq> ''password'')) (users d) \<and>
            length ps = length (users d) \<and>
            (\<forall>i<length ps. map_of (ps ! i) ''password'' = None \<and>
               (\<forall>k. k \<noteq> ''password'' \<longrightarrow> map_of (ps ! i) k = map_of (users d ! i) k))))"
  proof (intro allI impI)
    fix uid u
    assume a: "h = Some uid \<and> uid \<noteq> [] \<and>
        find (\<lambda>u. obj_get u ''id'' = JStr uid) (users d) = Some u"
    then have auth: "authMiddleware d (incoming h b oid) = Inr ((incoming h b oid)\<lparr>user := Some u\<rparr>)"
      by (simp add: authMiddleware_def incoming_def)
    have adm: "adminMiddleware d ((incoming h b oid)\<lparr>user := Some u\<rparr>) =
        (if \<not> truthy (obj_get u ''isAdmin'')
         then Inl (403, message ''Forbidden: Admin access required.'')
         else Inr ((incoming h b oid)\<lparr>user := Some u\<rparr>))"
      by (simp add: adminMiddleware_def incoming_def)
    have stripped: "map_of (obj_rest ''password'' v) ''password'' = None"
      "\<forall>k. k \<noteq> ''password'' \<longrightarrow> map_of (obj_rest ''password'' v) k = map_of v k" for v
      by (simp_all add: map_of_obj_rest)
    have profile: "app GetUsersProfile d (incoming h b oid) =
        Inr ((200, JObj (obj_rest ''password'' u)), d)"
      by (simp add: route_auth auth get_profile_def)
    have one: "\<exists>p. app GetUsersProfile d (incoming h b oid) = Inr ((200, JObj p), d) \<and>
           p = filter (\<lambda>kv. fst kv \<noteq> ''password'') u \<and>
           map_of p ''password'' = None \<and>
           (\<forall>k. k \<noteq> ''password'' \<longrightarrow> map_of p k = map_of u k)"
      unfolding profile using stripped [of u]
      by (intro exI [of _ "obj_rest ''password'' u"]) (simp add: obj_rest_filter [symmetric])
    have two: "\<not> truthy (obj_get u ''isAdmin'') \<longrightarrow>
         app GetAdminUsers d (incoming h b oid) =
           Inr ((403, message ''Forbidden: Admin access required.''), d)"
      by (simp add: route_auth_admin auth adm)
    have three: "truthy (obj_get u ''isAdmin'') \<longrightarrow>
         (\<exists>ps. app GetAdminUsers d (incoming h b oid) = Inr ((200, JArr (map JObj ps)), d) \<and>
            ps = map (filter (\<lambda>kv. fst kv \<noteq> ''password'')) (users d) \<and>
            length ps = length (users d) \<and>
            (\<forall>i<length ps. map_of (ps ! i) ''password'' = None \<and>
               (\<forall>k. k \<noteq> ''password'' \<longrightarrow> map_of (ps ! i) k = map_of (users d ! i) k)))"
    proof (rule impI)
      assume "truthy (obj_get u ''isAdmin'')"
      then have run: "app GetAdminUsers d (incoming h b oid) =
          Inr ((200, JArr (map JObj (map (obj_rest ''password'') (users d)))), d)"
        by (simp add: route_auth_admin auth adm admin_users_def comp_def)
      have same: "map (obj_rest ''password'') (users d) =
          map (filter (\<lambda>kv. fst kv \<noteq> ''password'')) (users d)"
        by (simp add: obj_rest_filter)
      show "\<exists>ps. app GetAdminUsers d (incoming h b oid) = Inr ((200, JArr (map JObj ps)), d) \<and>
            ps = map (filter (\<lambda>kv. fst kv \<noteq> ''password'')) (users d) \<and>
            length ps = length (users d) \<and>
            (\<forall>i<length ps. map_of (ps ! i) ''password'' = None \<and>
               (\<forall>k. k \<noteq> ''password'' \<longrightarrow> map_of (ps ! i) k = map_of (users d ! i) k))"
        unfolding run using stripped
        by (intro exI [of _ "map (obj_rest ''password'') (users d)"]) (simp add: same [symmetric])
    qed
    from one two three
    show "(\<exists>p. app GetUsersProfile d (incoming h b oid) = Inr ((200, JObj p), d) \<and>
           p = filter (\<lambda>kv. fst kv \<noteq> ''password'') u \<and>
           map_of p ''password'' = None \<and>
           (\<forall>k. k \<noteq> ''password'' \<longrightarrow> map_of p k = map_of u k)) \<and>
      (\<not> truthy (obj_get u ''isAdmin'') \<longrightarrow>
         app GetAdminUsers d (incoming h b oid) =
           Inr ((403, message ''Forbidden: Admin access required.''), d)) \<and>
      (truthy (obj_get u ''isAdmin'') \<longrightarrow>
         (\<exists>ps. app GetAdminUsers d (incoming h b oid) = Inr ((200, JArr (map JObj ps)), d) \<and>
            ps = map (filter (\<lambda>kv. fst kv \<noteq> ''password'')) (users d) \<and>
            length ps = length (users d) \<and>
            (\<forall>i<length ps. map_of (ps ! i) ''password'' = None \<and>
               (\<forall>k. k \<noteq> ''password'' \<longrightarrow> map_of (ps ! i) k = map_of (users d ! i) k))))"
      by (intro conjI)
  qed
qed

text \<open>
  Instances: without a header the profile fetch answers 401; the admin's profile and the
  admin's user list carry identifier, name, e-mail address and admin flag and no
  password; Bob, once registered, gets 403 from the user list.
\<close>

theorem get_profile_and_admin_users_strip_password_witness:
  "(\<exists>m. app GetUsersProfile init_db (incoming None [] []) = Inr ((401, message m), init_db)) \<and>
   app GetUsersProfile init_db (incoming (Some ''U-1670000000000'') [] []) =
     Inr ((200, JObj [(''id'', JStr ''U-1670000000000''),
                      (''name'', JStr ''Admin''),
                      (''email'', JStr ''admin@breakway.com''),
                      (''isAdmin'', JBool True)]), init_db) \<and>
   app GetAdminUsers init_db (incoming (Some ''U-1670000000000'') [] []) =
     Inr ((200, JArr [JObj [(''id'', JStr ''U-1670000000000''),
                            (''name'', JStr ''Admin''),
                            (''email'', JStr ''admin@breakway.com''),
                            (''isAdmin'', JBool True)]]), init_db) \<and>
   app GetAdminUsers
     (serve init_db
        [(PostUsersRegister 1700000000000, None,
            [(''name'', JStr ''Bob''), (''contact'', JStr ''9876543210''), (''password'', JStr ''p2'')], [])])
     (incoming (Some ''U-1700000000000'') [] []) =
     Inr ((403, message ''Forbidden: Admin access required.''),
          serve init_db
            [(PostUsersRegister 1700000000000, None,
                [(''name'', JStr ''Bob''), (''contact'', JStr ''9876543210''), (''password'', JStr ''p2'')], [])])"
proof -
  let ?d = "serve init_db
        [(PostUsersRegister 1700000000000, None,
            [(''name'', JStr ''Bob''), (''contact'', JStr ''9876543210''), (''password'', JStr ''p2'')], [])]"
  have "None = None \<or> None = Some [] \<or>
      (\<exists>uid. None = Some uid \<and> (\<forall>u\<in>set (users init_db). obj_get u ''id'' \<noteq> JStr uid))"
    by simp
  from get_profile_and_admin_users_strip_password [of None init_db "[]" "[]", THEN conjunct1, THEN mp, OF this, THEN conjunct1]
  have a: "\<exists>m. app GetUsersProfile init_db (incoming None [] []) = Inr ((401, message m), init_db)" .
  have admin: "Some ''U-1670000000000'' = Some ''U-1670000000000'' \<and> ''U-1670000000000'' \<noteq> [] \<and>
      find (\<lambda>u. obj_get u ''id'' = JStr ''U-1670000000000'') (users init_db) = Some (users init_db ! 0)"
    by (simp add: init_db_def obj_get_def)
  note at_admin = get_profile_and_admin_users_strip_password [of "Some ''U-1670000000000''" init_db "[]" "[]", THEN conjunct2,
      THEN spec, THEN spec, THEN mp, OF admin]
  from at_admin [THEN conjunct1]
  have b: "app GetUsersProfile init_db (incoming (Some ''U-1670000000000'') [] []) =
     Inr ((200, JObj [(''id'', JStr ''U-1670000000000''),
                      (''name'', JStr ''Admin''),
                      (''email'', JStr ''admin@breakway.com''),
                      (''isAdmin'', JBool True)]), init_db)"
  proof (elim exE conjE)
    fix p
    assume run: "app GetUsersProfile init_db (incoming (Some ''U-1670000000000'') [] []) =
        Inr ((200, JObj p), init_db)"
      and p: "p = filter (\<lambda>kv. fst kv \<noteq> ''password'') (users init_db ! 0)"
    from p have "p = [(''id'', JStr ''U-1670000000000''),
                      (''name'', JStr ''Admin''),
                      (''email'', JStr ''admin@breakway.com''),
                      (''isAdmin'', JBool True)]"
      by (simp add: init_db_def)
    with run show ?thesis
      by (simp only:)
  qed
  have flag: "truthy (obj_get (users init_db ! 0) ''isAdmin'')"
    by (simp add: init_db_def obj_get_def)
  from at_admin [THEN conjunct2, THEN conjunct2, THEN mp, OF flag]
  have c: "app GetAdminUsers init_db (incoming (Some ''U-1670000000000'') [] []) =
     Inr ((200, JArr [JObj [(''id'', JStr ''U-1670000000000''),
                            (''name'', JStr ''Admin''),
                            (''email'', JStr ''admin@breakway.com''),
                            (''isAdmin'', JBool True)]]), init_db)"
  proof (elim exE conjE)
    fix ps
    assume run: "app GetAdminUsers init_db (incoming (Some ''U-1670000000000'') [] []) =
        Inr ((200, JArr (map JObj ps)), init_db)"
      and ps: "ps = map (filter (\<lambda>kv. fst kv \<noteq> ''password'')) (users init_db)"
    from ps have "map JObj ps = [JObj [(''id'', JStr ''U-1670000000000''),
                            (''name'', JStr ''Admin''),
                            (''email'', JStr ''admin@breakway.com''),
                            (''isAdmin'', JBool True)]]"
      by (simp add: init_db_def)
    with run show ?thesis
      by (simp only:)
  qed
  have bob: "Some ''U-1700000000000'' = Some ''U-1700000000000'' \<and> ''U-1700000000000'' \<noteq> [] \<and>
      find (\<lambda>u. obj_get u ''id'' = JStr ''U-1700000000000'') (users ?d) = Some (users ?d ! 1)"
    unfolding serve_bob by (simp add: init_db_def obj_get_def)
  have bob_flag: "\<not> truthy (obj_get (users ?d ! 1) ''isAdmin'')"
    unfolding serve_bob by (simp add: init_db_def obj_get_def)
  from get_profile_and_admin_users_strip_password [of "Some ''U-1700000000000''" ?d "[]" "[]", THEN conjunct2,
      THEN spec, THEN spec, THEN mp, OF bob, THEN conjunct2, THEN conjunct1, THEN mp, OF bob_flag]
  have e: "app GetAdminUsers ?d (incoming (Some ''U-1700000000000'') [] []) =
     Inr ((403, message ''Forbidden: Admin access required.''), ?d)" .
  from a b c e show ?thesis
    by (intro conjI)
qed

section \<open>Orders\<close>

text \<open>
  Claim C6: in every reachable database, if an order owned by the authenticated caller
  has a status other than \<^verbatim>\<open>placed\<close>, cancelling it by its identifier answers 400
  and leaves the database as it is. In any database, a cancel request either changes
  nothing and does not answer 200, or answers 200 and sets exactly one order, owned by
  the caller, with the requested identifier and status \<^verbatim>\<open>placed\<close>, to
  \<^verbatim>\<open>cancelled\<close>; the same request repeated on the result answers 400 and changes
  nothing.
\<close>

theorem cancel_order_only_placed:
  assumes auth: "authMiddleware d (incoming (Some uid) b oid) = Inr req'"
  shows "(reachable d \<and> x \<in> set (orders d) \<and> obj_get x ''userId'' = JStr uid \<and>
          obj_get x ''id'' = JStr oid \<and> obj_get x ''status'' \<noteq> JStr ''placed'' \<longrightarrow>
            app PutOrdersCancel d (incoming (Some uid) b oid) =
              Inr ((400, message (''Only orders with '' @ [CHR 0x22] @ ''placed''
                                    @ [CHR 0x22] @ '' status can be cancelled.'')), d))
       \<and> (\<forall>r d'. app PutOrdersCancel d (incoming (Some uid) b oid) = Inr (r, d') \<longrightarrow>
            d' = d \<and> fst r \<noteq> 200 \<or>
            (\<exists>i<length (orders d). fst r = 200 \<and>
               obj_get (orders d ! i) ''id'' = JStr oid \<and>
               obj_get (orders d ! i) ''userId'' = JStr uid \<and>
               obj_get (orders d ! i) ''status'' = JStr ''placed'' \<and>
               d' = d\<lparr>orders := (orders d)[i := obj_set ''status'' (JStr ''cancelled'') (orders d ! i)]\<rparr> \<and>
               app PutOrdersCancel d' (incoming (Some uid) b oid) =
                 Inr ((400, message (''Only orders with '' @ [CHR 0x22] @ ''placed''
                                       @ [CHR 0x22] @ '' status can be cancelled.'')), d')))"
proof (intro conjI impI allI)
  assume a: "reachable d \<and> x \<in> set (orders d) \<and> obj_get x ''userId'' = JStr uid \<and>
          obj_get x ''id'' = JStr oid \<and> obj_get x ''status'' \<noteq> JStr ''placed''"
  then have reach: "reachable d" and mem: "x \<in> set (orders d)"
    and own: "obj_get x ''userId'' = JStr uid" and xid: "obj_get x ''id'' = JStr oid"
    and st: "obj_get x ''status'' \<noteq> JStr ''placed''"
    by simp_all
  from mem obtain k where k: "k < length (orders d)" "orders d ! k = x"
    by (auto simp: in_set_conv_nth)
  from reach reachable_wf have "orders_wf d"
    by blast
  then have "obj_get (orders d ! k) ''status'' \<noteq> JStr ''placed'' \<longrightarrow>
           (\<forall>j<k. obj_get (orders d ! j) ''id'' \<noteq> obj_get (orders d ! k) ''id'' \<or>
                  obj_get (orders d ! j) ''userId'' \<noteq> obj_get (orders d ! k) ''userId'')"
    using k(1) unfolding orders_wf_def by blast
  with k(2) st own xid have first:
    "\<forall>j<k. \<not> (obj_get (orders d ! j) ''id'' = JStr oid \<and> obj_get (orders d ! j) ''userId'' = JStr uid)"
    by simp
  have "findIndex (\<lambda>x. obj_get x ''id'' = JStr oid \<and> obj_get x ''userId'' = JStr uid) (orders d) = Some k"
  proof (rule findIndex_first)
    show "k < length (orders d)" by (rule k(1))
    show "obj_get (orders d ! k) ''id'' = JStr oid \<and> obj_get (orders d ! k) ''userId'' = JStr uid"
      using k(2) own xid by simp
    show "\<forall>j<k. \<not> (obj_get (orders d ! j) ''id'' = JStr oid \<and> obj_get (orders d ! j) ''userId'' = JStr uid)"
      by (rule first)
  qed
  from cancel_order_found [OF auth this] k(2) st
  show "app PutOrdersCancel d (incoming (Some uid) b oid) =
              Inr ((400, message (''Only orders with '' @ [CHR 0x22] @ ''placed''
                                    @ [CHR 0x22] @ '' status can be cancelled.'')), d)"
    by simp
next
  fix r d'
  assume run: "app PutOrdersCancel d (incoming (Some uid) b oid) = Inr (r, d')"
  let ?p = "\<lambda>x. obj_get x ''id'' = JStr oid \<and> obj_get x ''userId'' = JStr uid"
  show "d' = d \<and> fst r \<noteq> 200 \<or>
            (\<exists>i<length (orders d). fst r = 200 \<and>
               obj_get (orders d ! i) ''id'' = JStr oid \<and>
               obj_get (orders d ! i) ''userId'' = JStr uid \<and>
               obj_get (orders d ! i) ''status'' = JStr ''placed'' \<and>
               d' = d\<lparr>orders := (orders d)[i := obj_set ''status'' (JStr ''cancelled'') (orders d ! i)]\<rparr> \<and>
               app PutOrdersCancel d' (incoming (Some uid) b oid) =
                 Inr ((400, message (''Only orders with '' @ [CHR 0x22] @ ''placed''
                                       @ [CHR 0x22] @ '' status can be cancelled.'')), d'))"
  proof (cases "findIndex ?p (orders d)")
    case None
    from run have "Inr ((404, message ''Order not found or you do not have permission to cancel it.''), d)
        = (Inr (r, d') :: error + response \<times> db)"
      unfolding cancel_order_missing [OF auth None] .
    then have "d' = d \<and> fst r \<noteq> 200"
      by auto
    then show ?thesis
      by (rule disjI1)
  next
    case (Some i)
    from findIndex_Some [OF Some] have il: "i < length (orders d)" and
      hit: "obj_get (orders d ! i) ''id'' = JStr oid" "obj_get (orders d ! i) ''userId'' = JStr uid"
      by auto
    show ?thesis
    proof (cases "obj_get (orders d ! i) ''status'' = JStr ''placed''")
      case False
      from run False have "Inr ((400, message (''Only orders with '' @ [CHR 0x22] @ ''placed''
                                    @ [CHR 0x22] @ '' status can be cancelled.'')), d)
        = (Inr (r, d') :: error + response \<times> db)"
        unfolding cancel_order_found [OF auth Some] by simp
      then have "d' = d \<and> fst r \<noteq> 200"
        by auto
      then show ?thesis
        by (rule disjI1)
    next
      case True
      let ?y = "obj_set ''status'' (JStr ''cancelled'') (orders d ! i)"
      from run True have "Inr ((200, JObj ?y), d\<lparr>orders := (orders d)[i := ?y]\<rparr>)
        = (Inr (r, d') :: error + response \<times> db)"
        unfolding cancel_order_found [OF auth Some] by simp
      then have r: "fst r = 200" and d': "d' = d\<lparr>orders := (orders d)[i := ?y]\<rparr>"
        by auto
      have auth': "authMiddleware d' (incoming (Some uid) b oid) = Inr req'"
        using auth authMiddleware_users [of d' d] d' by simp
      have "findIndex ?p ((orders d)[i := ?y]) = Some i"
        using Some hit by (intro findIndex_update_same) (simp_all add: obj_get_obj_set)
      then have found': "findIndex ?p (orders d') = Some i"
        using d' by simp
      have "obj_get (orders d' ! i) ''status'' \<noteq> JStr ''placed''"
        using d' il by (simp add: obj_get_obj_set)
      with cancel_order_found [OF auth' found'] have
        "app PutOrdersCancel d' (incoming (Some uid) b oid) =
                 Inr ((400, message (''Only orders with '' @ [CHR 0x22] @ ''placed''
                                       @ [CHR 0x22] @ '' status can be cancelled.'')), d')"
        by simp
      with il r hit True d' have
        "i < length (orders d) \<and> fst r = 200 \<and>
               obj_get (orders d ! i) ''id'' = JStr oid \<and>
               obj_get (orders d ! i) ''userId'' = JStr uid \<and>
               obj_get (orders d ! i) ''status'' = JStr ''placed'' \<and>
               d' = d\<lparr>orders := (orders d)[i := obj_set ''status'' (JStr ''cancelled'') (orders d ! i)]\<rparr> \<and>
               app PutOrdersCancel d' (incoming (Some uid) b oid) =
                 Inr ((400, message (''Only orders with '' @ [CHR 0x22] @ ''placed''
                                       @ [CHR 0x22] @ '' status can be cancelled.'')), d')"
        by (intro conjI)
      then show ?thesis
        by (intro disjI2 exI [of _ i])
    qed
  qed
qed

text \<open>
  An instance: the admin places an order and cancels it; cancelling it again answers 400
  and leaves the database unchanged.
\<close>

theorem cancel_order_only_placed_witness:
  "app PutOrdersCancel
     (serve init_db
        [(PostOrders 1700000005000, Some ''U-1670000000000'', [(''item'', JStr ''cylinder'')], []),
         (PutOrdersCancel, Some ''U-1670000000000'', [], ''ORD-1700000005000'')])
     (incoming (Some ''U-1670000000000'') [] ''ORD-1700000005000'') =
   Inr ((400, message (''Only orders with '' @ [CHR 0x22] @ ''placed''
                         @ [CHR 0x22] @ '' status can be cancelled.'')),
        serve init_db
          [(PostOrders 1700000005000, Some ''U-1670000000000'', [(''item'', JStr ''cylinder'')], []),
           (PutOrdersCancel, Some ''U-1670000000000'', [], ''ORD-1700000005000'')])"
proof -
  let ?d = "serve init_db
        [(PostOrders 1700000005000, Some ''U-1670000000000'', [(''item'', JStr ''cylinder'')], []),
         (PutOrdersCancel, Some ''U-1670000000000'', [], ''ORD-1700000005000'')]"
  let ?x = "[(''item'', JStr ''cylinder''),
             (''userId'', JStr ''U-1670000000000''),
             (''id'', JStr ''ORD-1700000005000''),
             (''status'', JStr ''cancelled'')]"
  have auth: "authMiddleware ?d (incoming (Some ''U-1670000000000'') [] ''ORD-1700000005000'') =
      Inr ((incoming (Some ''U-1670000000000'') [] ''ORD-1700000005000'')\<lparr>user := Some (users init_db ! 0)\<rparr>)"
    unfolding serve_order_cancelled by (simp add: eval_defs)
  have reach: "reachable ?d"
    by (rule reachable_serve [OF reachable.init])
  have mem: "?x \<in> set (orders ?d)"
    unfolding serve_order_cancelled by simp
  have own: "obj_get ?x ''userId'' = JStr ''U-1670000000000''"
    and xid: "obj_get ?x ''id'' = JStr ''ORD-1700000005000''"
    and st: "obj_get ?x ''status'' \<noteq> JStr ''placed''"
    by (simp_all add: obj_get_def)
  from reach mem own xid st have hyp:
    "reachable ?d \<and> ?x \<in> set (orders ?d) \<and> obj_get ?x ''userId'' = JStr ''U-1670000000000'' \<and>
     obj_get ?x ''id'' = JStr ''ORD-1700000005000'' \<and> obj_get ?x ''status'' \<noteq> JStr ''placed''"
    by (intro conjI)
  from cancel_order_only_placed [OF auth, of ?x, THEN conjunct1, THEN mp, OF hyp]
  show ?thesis .
qed

text \<open>
  Orders are kept apart by owner. For an authenticated caller, the order list is the
  store's orders whose \<^verbatim>\<open>userId\<close> is the caller's identifier, in store order.
  Cancelling with an identifier that no order of the caller carries answers 404 and
  changes nothing. Whatever the identifier, a cancel request leaves users and tickets
  alone, changes no order owned by somebody else, and an order it returns is the
  caller's.
\<close>

theorem orders_isolated_per_owner:
  assumes auth: "authMiddleware d (incoming (Some uid) b oid) = Inr req'"
  shows "app GetOrders d (incoming (Some uid) b oid) =
           Inr ((200, JArr (map JObj (filter (\<lambda>x. obj_get x ''userId'' = JStr uid) (orders d)))), d)
       \<and> ((\<forall>x\<in>set (orders d). obj_get x ''id'' = JStr oid \<longrightarrow> obj_get x ''userId'' \<noteq> JStr uid) \<longrightarrow>
            app PutOrdersCancel d (incoming (Some uid) b oid) =
              Inr ((404, message ''Order not found or you do not have permission to cancel it.''), d))
       \<and> (\<forall>r d'. app PutOrdersCancel d (incoming (Some uid) b oid) = Inr (r, d') \<longrightarrow>
            users d' = users d \<and> supportTickets d' = supportTickets d \<and>
            length (orders d') = length (orders d) \<and>
            (\<forall>i<length (orders d). obj_get (orders d ! i) ''userId'' \<noteq> JStr uid \<longrightarrow>
               orders d' ! i = orders d ! i) \<and>
            (\<forall>p. r = (200, JObj p) \<longrightarrow> obj_get p ''userId'' = JStr uid))"
proof (intro conjI)
  from authMiddleware_Some [OF auth] obtain u where
    u: "obj_get u ''id'' = JStr uid" "req' = (incoming (Some uid) b oid)\<lparr>user := Some u\<rparr>"
    by auto
  with auth show "app GetOrders d (incoming (Some uid) b oid) =
           Inr ((200, JArr (map JObj (filter (\<lambda>x. obj_get x ''userId'' = JStr uid) (orders d)))), d)"
    by (simp add: route_auth list_orders_def incoming_def)
next
  show "(\<forall>x\<in>set (orders d). obj_get x ''id'' = JStr oid \<longrightarrow> obj_get x ''userId'' \<noteq> JStr uid) \<longrightarrow>
            app PutOrdersCancel d (incoming (Some uid) b oid) =
              Inr ((404, message ''Order not found or you do not have permission to cancel it.''), d)"
  proof (rule impI)
    assume "\<forall>x\<in>set (orders d). obj_get x ''id'' = JStr oid \<longrightarrow> obj_get x ''userId'' \<noteq> JStr uid"
    then have "findIndex (\<lambda>x. obj_get x ''id'' = JStr oid \<and> obj_get x ''userId'' = JStr uid) (orders d) = None"
      by (simp add: findIndex_None)
    from cancel_order_missing [OF auth this]
    show "app PutOrdersCancel d (incoming (Some uid) b oid) =
              Inr ((404, message ''Order not found or you do not have permission to cancel it.''), d)" .
  qed
next
  have "users d' = users d \<and> supportTickets d' = supportTickets d \<and>
            length (orders d') = length (orders d) \<and>
            (\<forall>i<length (orders d). obj_get (orders d ! i) ''userId'' \<noteq> JStr uid \<longrightarrow>
               orders d' ! i = orders d ! i) \<and>
            (\<forall>p. r = (200, JObj p) \<longrightarrow> obj_get p ''userId'' = JStr uid)" if run: "app PutOrdersCancel d (incoming (Some uid) b oid) = Inr (r, d')" for r d'
  proof -
  let ?p = "\<lambda>x. obj_get x ''id'' = JStr oid \<and> obj_get x ''userId'' = JStr uid"
  show "users d' = users d \<and> supportTickets d' = supportTickets d \<and>
            length (orders d') = length (orders d) \<and>
            (\<forall>i<length (orders d). obj_get (orders d ! i) ''userId'' \<noteq> JStr uid \<longrightarrow>
               orders d' ! i = orders d ! i) \<and>
            (\<forall>p. r = (200, JObj p) \<longrightarrow> obj_get p ''userId'' = JStr uid)"
  proof (cases "findIndex ?p (orders d)")
    case None
    from run have "Inr ((404, message ''Order not found or you do not have permission to cancel it.''), d)
        = (Inr (r, d') :: error + response \<times> db)"
      unfolding cancel_order_missing [OF auth None] .
    then have "d' = d" "fst r = 404"
      by auto
    then show ?thesis
      by auto
  next
    case (Some i)
    from findIndex_Some [OF Some] have il: "i < length (orders d)" and
      hit: "obj_get (orders d ! i) ''userId'' = JStr uid"
      by auto
    let ?y = "obj_set ''status'' (JStr ''cancelled'') (orders d ! i)"
    show ?thesis
    proof (cases "obj_get (orders d ! i) ''status'' = JStr ''placed''")
      case False
      from run False have "Inr ((400, message (''Only orders with '' @ [CHR 0x22] @ ''placed''
                                    @ [CHR 0x22] @ '' status can be cancelled.'')), d)
        = (Inr (r, d') :: error + response \<times> db)"
        unfolding cancel_order_found [OF auth Some] by simp
      then have "d' = d" "fst r = 400"
        by auto
      then show ?thesis
        by auto
    next
      case True
      from run True have "Inr ((200, JObj ?y), d\<lparr>orders := (orders d)[i := ?y]\<rparr>)
        = (Inr (r, d') :: error + response \<times> db)"
        unfolding cancel_order_found [OF auth Some] by simp
      then have r: "r = (200, JObj ?y)" and d': "d' = d\<lparr>orders := (orders d)[i := ?y]\<rparr>"
        by auto
      from hit have "obj_get ?y ''userId'' = JStr uid"
        by (simp add: obj_get_obj_set)
      with r d' hit il show ?thesis
        by (auto simp: nth_list_update)
    qed
  qed
  qed
  then show "\<forall>r d'. app PutOrdersCancel d (incoming (Some uid) b oid) = Inr (r, d') \<longrightarrow>
            users d' = users d \<and> supportTickets d' = supportTickets d \<and>
            length (orders d') = length (orders d) \<and>
            (\<forall>i<length (orders d). obj_get (orders d ! i) ''userId'' \<noteq> JStr uid \<longrightarrow>
               orders d' ! i = orders d ! i) \<and>
            (\<forall>p. r = (200, JObj p) \<longrightarrow> obj_get p ''userId'' = JStr uid)"
    by blast
qed

text \<open>
  An instance: Bob has no orders; his order list is empty and his attempt to cancel the
  admin's order answers 404, leaving the database unchanged.
\<close>

theorem orders_isolated_per_owner_witness:
  "app GetOrders
     (serve init_db
        [(PostUsersRegister 1700000000000, None,
            [(''name'', JStr ''Bob''), (''contact'', JStr ''9876543210''), (''password'', JStr ''p2'')], []),
         (PostOrders 1700000005000, Some ''U-1670000000000'', [(''item'', JStr ''cylinder'')], [])])
     (incoming (Some ''U-1700000000000'') [] ''ORD-1700000005000'') =
     Inr ((200, JArr []),
          serve init_db
            [(PostUsersRegister 1700000000000, None,
                [(''name'', JStr ''Bob''), (''contact'', JStr ''9876543210''), (''password'', JStr ''p2'')], []),
             (PostOrders 1700000005000, Some ''U-1670000000000'', [(''item'', JStr ''cylinder'')], [])]) \<and>
   app PutOrdersCancel
     (serve init_db
        [(PostUsersRegister 1700000000000, None,
            [(''name'', JStr ''Bob''), (''contact'', JStr ''9876543210''), (''password'', JStr ''p2'')], []),
         (PostOrders 1700000005000, Some ''U-1670000000000'', [(''item'', JStr ''cylinder'')], [])])
     (incoming (Some ''U-1700000000000'') [] ''ORD-1700000005000'') =
     Inr ((404, message ''Order not found or you do not have permission to cancel it.''),
          serve init_db
            [(PostUsersRegister 1700000000000, None,
                [(''name'', JStr ''Bob''), (''contact'', JStr ''9876543210''), (''password'', JStr ''p2'')], []),
             (PostOrders 1700000005000, Some ''U-1670000000000'', [(''item'', JStr ''cylinder'')], [])])"
proof -
  let ?d = "serve init_db
        [(PostUsersRegister 1700000000000, None,
            [(''name'', JStr ''Bob''), (''contact'', JStr ''9876543210''), (''password'', JStr ''p2'')], []),
         (PostOrders 1700000005000, Some ''U-1670000000000'', [(''item'', JStr ''cylinder'')], [])]"
  have auth: "authMiddleware ?d (incoming (Some ''U-1700000000000'') [] ''ORD-1700000005000'') =
      Inr ((incoming (Some ''U-1700000000000'') [] ''ORD-1700000005000'')\<lparr>user := Some (users ?d ! 1)\<rparr>)"
    unfolding serve_bob_admin_order by (simp add: eval_defs)
  note iso = orders_isolated_per_owner [OF auth]
  have none: "filter (\<lambda>x. obj_get x ''userId'' = JStr ''U-1700000000000'') (orders ?d) = []"
    unfolding serve_bob_admin_order by (simp add: obj_get_def)
  have foreign: "\<forall>x\<in>set (orders ?d). obj_get x ''id'' = JStr ''ORD-1700000005000'' \<longrightarrow>
      obj_get x ''userId'' \<noteq> JStr ''U-1700000000000''"
    unfolding serve_bob_admin_order by (simp add: obj_get_def)
  from iso [THEN conjunct1] none
  have "app GetOrders ?d (incoming (Some ''U-1700000000000'') [] ''ORD-1700000005000'') =
      Inr ((200, JArr []), ?d)"
    by simp
  moreover from iso [THEN conjunct2, THEN conjunct1, THEN mp, OF foreign]
  have "app PutOrdersCancel ?d (incoming (Some ''U-1700000000000'') [] ''ORD-1700000005000'') =
      Inr ((404, message ''Order not found or you do not have permission to cancel it.''), ?d)" .
  ultimately show ?thesis
    by (rule conjI)
qed

text \<open>
  When order identifiers are pairwise distinct, cancelling with the identifier of
  somebody else's order answers 404 and changes nothing.
\<close>

lemma cancel_foreign_order_with_unique_ids:
  assumes auth: "authMiddleware d (incoming (Some uid) b oid) = Inr req'"
    and uniq: "distinct (map (\<lambda>x. obj_get x ''id'') (orders d))"
    and x: "x \<in> set (orders d)" "obj_get x ''id'' = JStr oid" "obj_get x ''userId'' \<noteq> JStr uid"
  shows "app PutOrdersCancel d (incoming (Some uid) b oid) =
     Inr ((404, message ''Order not found or you do not have permission to cancel it.''), d)"
proof -
  have "\<forall>y\<in>set (orders d). obj_get y ''id'' = JStr oid \<longrightarrow> obj_get y ''userId'' \<noteq> JStr uid"
  proof (intro ballI impI)
    fix y
    assume "y \<in> set (orders d)" "obj_get y ''id'' = JStr oid"
    with uniq x(1,2) have "y = x"
      by (auto simp: distinct_map inj_on_def)
    with x(3) show "obj_get y ''userId'' \<noteq> JStr uid"
      by simp
  qed
  then have "findIndex (\<lambda>x. obj_get x ''id'' = JStr oid \<and> obj_get x ''userId'' = JStr uid) (orders d) = None"
    by (simp add: findIndex_None)
  from cancel_order_missing [OF auth this] show ?thesis .
qed

text \<open>
  Claim C7 (the order list and the cancel request never return or affect an order owned
  by another user; cancelling with the identifier of another user's order answers 404
  and changes no order). Order identifiers are \<^verbatim>\<open>`ORD-${Date.now()}`\<close>, so they are
  not distinct: when the admin and Bob each place an order within the same millisecond,
  the two orders carry the same identifier, and Bob's cancel request with the identifier
  of the admin's order answers 200 and cancels Bob's own order.
\<close>

theorem cancel_with_id_of_foreign_order_succeeds:
  "obj_get (orders (serve init_db
      [(PostUsersRegister 1700000000000, None,
          [(''name'', JStr ''Bob''), (''contact'', JStr ''9876543210''), (''password'', JStr ''p2'')], []),
       (PostOrders 1700000005000, Some ''U-1670000000000'', [(''item'', JStr ''cylinder'')], []),
       (PostOrders 1700000005000, Some ''U-1700000000000'', [(''item'', JStr ''regulator'')], [])]) ! 0)
     ''id'' = JStr ''ORD-1700000005000'' \<and>
   obj_get (orders (serve init_db
      [(PostUsersRegister 1700000000000, None,
          [(''name'', JStr ''Bob''), (''contact'', JStr ''9876543210''), (''password'', JStr ''p2'')], []),
       (PostOrders 1700000005000, Some ''U-1670000000000'', [(''item'', JStr ''cylinder'')], []),
       (PostOrders 1700000005000, Some ''U-1700000000000'', [(''item'', JStr ''regulator'')], [])]) ! 0)
     ''userId'' = JStr ''U-1670000000000'' \<and>
   app PutOrdersCancel
     (serve init_db
      [(PostUsersRegister 1700000000000, None,
          [(''name'', JStr ''Bob''), (''contact'', JStr ''9876543210''), (''password'', JStr ''p2'')], []),
       (PostOrders 1700000005000, Some ''U-1670000000000'', [(''item'', JStr ''cylinder'')], []),
       (PostOrders 1700000005000, Some ''U-1700000000000'', [(''item'', JStr ''regulator'')], [])])
     (incoming (Some ''U-1700000000000'') [] ''ORD-1700000005000'') =
   Inr ((200, JObj [(''item'', JStr ''regulator''),
                    (''userId'', JStr ''U-1700000000000''),
                    (''id'', JStr ''ORD-1700000005000''),
                    (''status'', JStr ''cancelled'')]),
        \<lparr> users = users init_db @
                  [[(''id'', JStr ''U-1700000000000''),
                    (''name'', JStr ''Bob''),
                    (''password'', JStr ''p2''),
                    (''email'', JNull),
                    (''mobile'', JStr ''9876543210''),
                    (''address'', JStr ''''),
                    (''profilePic'', JStr ''''),
                    (''isAdmin'', JBool False)]],
          orders = [[(''item'', JStr ''cylinder''),
                     (''userId'', JStr ''U-1670000000000''),
                     (''id'', JStr ''ORD-1700000005000''),
                     (''status'', JStr ''placed'')],
                    [(''item'', JStr ''regulator''),
                     (''userId'', JStr ''U-1700000000000''),
                     (''id'', JStr ''ORD-1700000005000''),
                     (''status'', JStr ''cancelled'')]],
          supportTickets = [] \<rparr>)"
  unfolding serve_two_orders_same_ms
  by (simp add: eval_defs cong: let_weak_cong)

section \<open>Administration\<close>

text \<open>
  Claim C9: on each of the three admin routes, a request without a header, with an
  empty header, or with a header that names no stored user is answered 401 (it is not
  an admin's either, and still the answer is 401, not 403); a request that resolves to
  a user whose \<^verbatim>\<open>isAdmin\<close> is not truthy is answered 403; a request that resolves to
  an admin is answered 200 with the route's data.
\<close>

theorem admin_routes_checks:
  assumes e: "e \<in> {GetAdminStats, GetAdminUsers, GetAdminOrders}"
  shows "(h = None \<or> h = Some [] \<or> (\<exists>uid. h = Some uid \<and> (\<forall>u\<in>set (users d). obj_get u ''id'' \<noteq> JStr uid)) \<longrightarrow>
            (\<exists>m. app e d (incoming h b oid) = Inr ((401, message m), d)))
       \<and> (\<forall>uid u. h = Some uid \<and> uid \<noteq> [] \<and>
              find (\<lambda>u. obj_get u ''id'' = JStr uid) (users d) = Some u \<longrightarrow>
              app e d (incoming h b oid) =
                (if \<not> truthy (obj_get u ''isAdmin'')
                 then Inr ((403, message ''Forbidden: Admin access required.''), d)
                 else Inr ((200,
                            if e = GetAdminStats
                            then JObj [(''userCount'', JNum (of_nat (length (users d)))),
                                       (''orderCount'', JNum (of_nat (length (orders d))))]
                            else if e = GetAdminUsers
                            then JArr (map (\<lambda>u. JObj (obj_rest ''password'' u)) (users d))
                            else JArr (map JObj (orders d))), d)))"
proof (intro conjI)
  show "h = None \<or> h = Some [] \<or> (\<exists>uid. h = Some uid \<and> (\<forall>u\<in>set (users d). obj_get u ''id'' \<noteq> JStr uid)) \<longrightarrow>
            (\<exists>m. app e d (incoming h b oid) = Inr ((401, message m), d))"
  proof (rule impI)
    assume "h = None \<or> h = Some [] \<or> (\<exists>uid. h = Some uid \<and> (\<forall>u\<in>set (users d). obj_get u ''id'' \<noteq> JStr uid))"
    then have "\<exists>m. authMiddleware d (incoming h b oid) = Inl (401, message m)"
      by (auto simp: authMiddleware_def incoming_def split: option.splits dest: find_Some_set)
    with e show "\<exists>m. app e d (incoming h b oid) = Inr ((401, message m), d)"
      by (auto simp: route_auth_admin)
  qed
next
  have "app e d (incoming h b oid) =
                (if \<not> truthy (obj_get u ''isAdmin'')
                 then Inr ((403, message ''Forbidden: Admin access required.''), d)
                 else Inr ((200,
                            if e = GetAdminStats
                            then JObj [(''userCount'', JNum (of_nat (length (users d)))),
                                       (''orderCount'', JNum (of_nat (length (orders d))))]
                            else if e = GetAdminUsers
                            then JArr (map (\<lambda>u. JObj (obj_rest ''password'' u)) (users d))
                            else JArr (map JObj (orders d))), d))" if a: "h = Some uid \<and> uid \<noteq> [] \<and> find (\<lambda>u. obj_get u ''id'' = JStr uid) (users d) = Some u" for uid u
  proof -
    from a have auth: "authMiddleware d (incoming h b oid) = Inr ((incoming h b oid)\<lparr>user := Some u\<rparr>)"
      by (simp add: authMiddleware_def incoming_def)
    have adm: "adminMiddleware d ((incoming h b oid)\<lparr>user := Some u\<rparr>) =
        (if \<not> truthy (obj_get u ''isAdmin'')
         then Inl (403, message ''Forbidden: Admin access required.'')
         else Inr ((incoming h b oid)\<lparr>user := Some u\<rparr>))"
      by (simp add: adminMiddleware_def incoming_def)
    from e consider "e = GetAdminStats" | "e = GetAdminUsers" | "e = GetAdminOrders"
      by auto
    then show ?thesis
    proof cases
      case 1
      then show ?thesis
        by (simp add: route_auth_admin auth adm admin_stats_def)
    next
      case 2
      then show ?thesis
        by (simp add: route_auth_admin auth adm admin_users_def)
    next
      case 3
      then show ?thesis
        by (simp add: route_auth_admin auth adm admin_orders_def)
    qed
  qed
  then show "\<forall>uid u. h = Some uid \<and> uid \<noteq> [] \<and>
              find (\<lambda>u. obj_get u ''id'' = JStr uid) (users d) = Some u \<longrightarrow>
              app e d (incoming h b oid) =
                (if \<not> truthy (obj_get u ''isAdmin'')
                 then Inr ((403, message ''Forbidden: Admin access required.''), d)
                 else Inr ((200,
                            if e = GetAdminStats
                            then JObj [(''userCount'', JNum (of_nat (length (users d)))),
                                       (''orderCount'', JNum (of_nat (length (orders d))))]
                            else if e = GetAdminUsers
                            then JArr (map (\<lambda>u. JObj (obj_rest ''password'' u)) (users d))
                            else JArr (map JObj (orders d))), d))"
    by blast
qed

text \<open>
  Instances on the statistics route, after Bob has registered: no header gives 401, Bob
  gets 403, the admin gets the two counts.
\<close>

theorem admin_routes_checks_witness:
  "(\<exists>m. app GetAdminStats
          (serve init_db
             [(PostUsersRegister 1700000000000, None,
                 [(''name'', JStr ''Bob''), (''contact'', JStr ''9876543210''), (''password'', JStr ''p2'')], [])])
          (incoming None [] []) =
        Inr ((401, message m),
             serve init_db
               [(PostUsersRegister 1700000000000, None,
                   [(''name'', JStr ''Bob''), (''contact'', JStr ''9876543210''), (''password'', JStr ''p2'')], [])])) \<and>
   app GetAdminStats
     (serve init_db
        [(PostUsersRegister 1700000000000, None,
            [(''name'', JStr ''Bob''), (''contact'', JStr ''9876543210''), (''password'', JStr ''p2'')], [])])
     (incoming (Some ''U-1700000000000'') [] []) =
     Inr ((403, message ''Forbidden: Admin access required.''),
          serve init_db
            [(PostUsersRegister 1700000000000, None,
                [(''name'', JStr ''Bob''), (''contact'', JStr ''9876543210''), (''password'', JStr ''p2'')], [])]) \<and>
   app GetAdminStats
     (serve init_db
        [(PostUsersRegister 1700000000000, None,
            [(''name'', JStr ''Bob''), (''contact'', JStr ''9876543210''), (''password'', JStr ''p2'')], [])])
     (incoming (Some ''U-1670000000000'') [] []) =
     Inr ((200, JObj [(''userCount'', JNum 2), (''orderCount'', JNum 0)]),
          serve init_db
            [(PostUsersRegister 1700000000000, None,
                [(''name'', JStr ''Bob''), (''contact'', JStr ''9876543210''), (''password'', JStr ''p2'')], [])])"
proof -
  let ?d = "serve init_db
        [(PostUsersRegister 1700000000000, None,
            [(''name'', JStr ''Bob''), (''contact'', JStr ''9876543210''), (''password'', JStr ''p2'')], [])]"
  have e: "GetAdminStats \<in> {GetAdminStats, GetAdminUsers, GetAdminOrders}"
    by simp
  note checks = admin_routes_checks [OF e, of _ ?d]
  have "None = None \<or> None = Some [] \<or>
      (\<exists>uid. None = Some uid \<and> (\<forall>u\<in>set (users ?d). obj_get u ''id'' \<noteq> JStr uid))"
    by simp
  from checks [of None "[]" "[]", THEN conjunct1, THEN mp, OF this]
  have a: "\<exists>m. app GetAdminStats ?d (incoming None [] []) = Inr ((401, message m), ?d)" .
  have bob: "Some ''U-1700000000000'' = Some ''U-1700000000000'' \<and> ''U-1700000000000'' \<noteq> [] \<and>
      find (\<lambda>u. obj_get u ''id'' = JStr ''U-1700000000000'') (users ?d) = Some (users ?d ! 1)"
    unfolding serve_bob by (simp add: init_db_def obj_get_def)
  have bob_flag: "\<not> truthy (obj_get (users ?d ! 1) ''isAdmin'')"
    unfolding serve_bob by (simp add: init_db_def obj_get_def)
  from checks [of "Some ''U-1700000000000''" "[]" "[]", THEN conjunct2, THEN spec, THEN spec, THEN mp, OF bob]
    bob_flag
  have b: "app GetAdminStats ?d (incoming (Some ''U-1700000000000'') [] []) =
      Inr ((403, message ''Forbidden: Admin access required.''), ?d)"
    by (simp only: simp_thms if_True)
  have admin: "Some ''U-1670000000000'' = Some ''U-1670000000000'' \<and> ''U-1670000000000'' \<noteq> [] \<and>
      find (\<lambda>u. obj_get u ''id'' = JStr ''U-1670000000000'') (users ?d) = Some (users ?d ! 0)"
    unfolding serve_bob by (simp add: init_db_def obj_get_def)
  have admin_flag: "truthy (obj_get (users ?d ! 0) ''isAdmin'')"
    unfolding serve_bob by (simp add: init_db_def obj_get_def)
  have counts: "length (users ?d) = 2" "length (orders ?d) = 0"
    unfolding serve_bob by (simp_all add: init_db_def)
  from checks [of "Some ''U-1670000000000''" "[]" "[]", THEN conjunct2, THEN spec, THEN spec, THEN mp, OF admin]
    admin_flag counts
  have c: "app GetAdminStats ?d (incoming (Some ''U-1670000000000'') [] []) =
      Inr ((200, JObj [(''userCount'', JNum 2), (''orderCount'', JNum 0)]), ?d)"
    by simp
  from a b c show ?thesis
    by (intro conjI)
qed

end
